theory Spec2Isabelle
  imports Complex_Main
begin

section \<open>Numbers, strings and arrays of the source language\<close>

text \<open>
  The program is JavaScript/TypeScript.  A JavaScript number is modelled as a
  \<^typ>\<open>real\<close>: rounding, infinities and signed zeros are not represented.  Where the
  source can produce \<^verbatim>\<open>NaN\<close> from a read outside an array or from an inherited property,
  the result has the type \<open>jsnum\<close>, which adds \<^verbatim>\<open>NaN\<close> to the reals.  A string is a \<^typ>\<open>string\<close>, each
  character standing for one code unit, so that \<^const>\<open>length\<close> is the source's
  \<^verbatim>\<open>.length\<close>.
\<close>

datatype jsnum = NaN | Num real

fun js_add :: "jsnum \<Rightarrow> jsnum \<Rightarrow> jsnum" where
  "js_add (Num a) (Num b) = Num (a + b)"
| "js_add _ _ = NaN"

fun js_sub :: "jsnum \<Rightarrow> jsnum \<Rightarrow> jsnum" where
  "js_sub (Num a) (Num b) = Num (a - b)"
| "js_sub _ _ = NaN"

fun js_mul :: "jsnum \<Rightarrow> jsnum \<Rightarrow> jsnum" where
  "js_mul (Num a) (Num b) = Num (a * b)"
| "js_mul _ _ = NaN"

text \<open>\<^verbatim>\<open>Math.max(a, b)\<close> is \<^verbatim>\<open>NaN\<close> as soon as one argument is.\<close>

fun js_max :: "jsnum \<Rightarrow> jsnum \<Rightarrow> jsnum" where
  "js_max (Num a) (Num b) = Num (max a b)"
| "js_max _ _ = NaN"

text \<open>Division by a divisor that the caller has tested to be non-zero.\<close>

fun js_div :: "jsnum \<Rightarrow> real \<Rightarrow> jsnum" where
  "js_div (Num a) d = Num (a / d)"
| "js_div NaN d = NaN"

text \<open>
  What a property read \<^verbatim>\<open>obj[k]\<close> on an object that holds numbers can give: undefined,
  a number, or an object or function inherited from \<^verbatim>\<open>Object.prototype\<close>.
\<close>

datatype jsval = Undefined | Number jsnum | Object

text \<open>\<^verbatim>\<open>v || 0\<close>: undefined, \<^verbatim>\<open>NaN\<close> and zero are falsy and give 0; an object is truthy.\<close>

fun js_or_zero :: "jsval \<Rightarrow> jsval" where
  "js_or_zero Undefined = Number (Num 0)"
| "js_or_zero (Number NaN) = Number (Num 0)"
| "js_or_zero (Number (Num a)) = (if a = 0 then Number (Num 0) else Number (Num a))"
| "js_or_zero Object = Object"

text \<open>
  The conversion to a number that \<^verbatim>\<open>Math.max\<close> applies to an argument: undefined and the
  members of \<^verbatim>\<open>Object.prototype\<close> (the prototype itself and its functions) give \<^verbatim>\<open>NaN\<close>.
\<close>

fun js_to_number :: "jsval \<Rightarrow> jsnum" where
  "js_to_number Undefined = NaN"
| "js_to_number (Number n) = n"
| "js_to_number Object = NaN"

text \<open>
  The white space that \<^verbatim>\<open>String.prototype.trim\<close> removes, among the code units below
  256: tab, line feed, vertical tab, form feed, carriage return, space, no-break space.
\<close>

definition is_space :: "char \<Rightarrow> bool" where
  "is_space c \<longleftrightarrow>
     c = CHR 0x09 \<or> c = CHR 0x0A \<or> c = CHR 0x0B \<or> c = CHR 0x0C \<or> c = CHR 0x0D \<or>
     c = CHR 0x20 \<or> c = CHR 0xA0"

definition trim :: "string \<Rightarrow> string" where
  "trim s = rev (dropWhile is_space (rev (dropWhile is_space s)))"

text \<open>\<^verbatim>\<open>array.join(sep)\<close> on an array of strings.\<close>

fun join :: "string \<Rightarrow> string list \<Rightarrow> string" where
  "join sep [] = []"
| "join sep [w] = w"
| "join sep (w # v # ws) = w @ sep @ join sep (v # ws)"

text \<open>
  \<^verbatim>\<open>text.split(" ")\<close>: the pieces between single spaces, empty pieces included; the
  empty string gives one empty piece.
\<close>

fun split_space :: "string \<Rightarrow> string list" where
  "split_space [] = [[]]"
| "split_space (c # cs) =
     (if c = CHR '' '' then [] # split_space cs
      else (case split_space cs of
              [] \<Rightarrow> [[c]]
            | w # ws \<Rightarrow> (c # w) # ws))"

text \<open>
  \<^verbatim>\<open>array.sort(cmp)\<close>.  The sort of the language is stable, and with a consistent
  comparator its result is the one of this insertion sort: an element goes before the
  first one it does not compare greater than.  A \<^verbatim>\<open>NaN\<close> from the comparator counts as 0;
  the language then leaves the order to the implementation, and the model gives one
  possible order.
\<close>

fun insert_sorted :: "('a \<Rightarrow> 'a \<Rightarrow> jsnum) \<Rightarrow> 'a \<Rightarrow> 'a list \<Rightarrow> 'a list" where
  "insert_sorted cmp x [] = [x]"
| "insert_sorted cmp x (y # ys) =
     (if (case cmp x y of NaN \<Rightarrow> True | Num d \<Rightarrow> d \<le> 0) then x # y # ys
      else y # insert_sorted cmp x ys)"

definition js_sort :: "('a \<Rightarrow> 'a \<Rightarrow> jsnum) \<Rightarrow> 'a list \<Rightarrow> 'a list" where
  "js_sort cmp xs = foldr (insert_sorted cmp) xs []"

section \<open>Selection drag (PDFViewer.tsx and the single-file App)\<close>

record point =
  pt_x :: real
  pt_y :: real

record dom_rect =
  rect_left :: real
  rect_top :: real

record mouse_event =
  clientX :: real
  clientY :: real

text \<open>The selection of \<^verbatim>\<open>PDFViewer.tsx\<close>: \<^verbatim>\<open>{ x, y, width, height }\<close>.\<close>

record selection =
  sel_x :: real
  sel_y :: real
  sel_width :: real
  sel_height :: real

text \<open>The selection box of the single-file App: \<^verbatim>\<open>{ left, top, width, height }\<close>.\<close>

record selectionBox =
  box_left :: real
  box_top :: real
  box_width :: real
  box_height :: real

text \<open>
  \<^verbatim>\<open>handleMouseMove\<close> of \<^verbatim>\<open>PDFViewer.tsx\<close>.  It returns without setting a selection when no
  drag is in progress or the canvas is not mounted (\<^verbatim>\<open>canvasRef.current\<close> is null); the
  result is the argument of \<^verbatim>\<open>setSelection\<close>, if it is called.
\<close>

definition handleMouseMove ::
  "bool \<Rightarrow> point \<Rightarrow> dom_rect option \<Rightarrow> mouse_event \<Rightarrow> selection option" where
  "handleMouseMove isDragging dragStart canvas e =
     (if \<not> isDragging then None
      else case canvas of
        None \<Rightarrow> None
      | Some rect \<Rightarrow>
          let x = clientX e - rect_left rect;
              y = clientY e - rect_top rect
          in Some \<lparr> sel_x = min (pt_x dragStart) x,
                    sel_y = min (pt_y dragStart) y,
                    sel_width = \<bar>x - pt_x dragStart\<bar>,
                    sel_height = \<bar>y - pt_y dragStart\<bar> \<rparr>)"

text \<open>
  \<^verbatim>\<open>onMouseMove\<close> of the single-file App.  It returns at once when no anchor is stored
  (\<^verbatim>\<open>startPos.current\<close> is null); it dereferences \<^verbatim>\<open>canvasRef.current\<close> without a test, which
  throws a TypeError on an unmounted canvas.
\<close>

datatype js_error = TypeError

definition onMouseMove ::
  "point option \<Rightarrow> dom_rect option \<Rightarrow> mouse_event \<Rightarrow> js_error + selectionBox option" where
  "onMouseMove startPos canvas e =
     (case startPos of
        None \<Rightarrow> Inr None
      | Some start \<Rightarrow>
          (case canvas of
             None \<Rightarrow> Inl TypeError
           | Some rect \<Rightarrow>
               let x = clientX e - rect_left rect;
                   y = clientY e - rect_top rect
               in Inr (Some \<lparr> box_left = min (pt_x start) x,
                                box_top = min (pt_y start) y,
                                box_width = \<bar>x - pt_x start\<bar>,
                                box_height = \<bar>y - pt_y start\<bar> \<rparr>)))"

section \<open>Selection extraction\<close>

text \<open>A transform of PDF.js: the six numbers \<^verbatim>\<open>[a, b, c, d, e, f]\<close>, indices 0 to 5.\<close>

record matrix =
  m0 :: real
  m1 :: real
  m2 :: real
  m3 :: real
  m4 :: real
  m5 :: real

text \<open>A text run of a page (\<^verbatim>\<open>textContent.items\<close>) and the viewport of the rendering.\<close>

record text_item =
  item_str :: string
  item_transform :: matrix
  item_width :: real
  item_height :: real

record viewport =
  vp_scale :: real
  vp_width :: real
  vp_height :: real
  vp_transform :: matrix

subsection \<open>\<^verbatim>\<open>handleMouseUp\<close> of \<^verbatim>\<open>PDFViewer.tsx\<close>\<close>

text \<open>An element of \<^verbatim>\<open>selectedItems\<close>: \<^verbatim>\<open>{ str, fontSize, y }\<close>.\<close>

record selected_item =
  si_str :: string
  fontSize :: real
  si_y :: real

text \<open>
  The body of the \<^verbatim>\<open>forEach\<close>: the run is pushed when at least 30 percent of its box lies in
  the selection.  \<^verbatim>\<open>item.height || 12\<close> replaces a height of 0 by 12.  When the area of
  the box is 0 the overlap is 0 too, the quotient is \<^verbatim>\<open>NaN\<close> in the source and the
  comparison with 0.3 is false: the model tests the area first.
\<close>

definition covered :: "selection \<Rightarrow> viewport \<Rightarrow> text_item \<Rightarrow> selected_item option" where
  "covered selection viewport item =
     (let x = m4 (item_transform item);
          y = vp_height viewport - m5 (item_transform item);
          width = item_width item;
          height = (if item_height item = 0 then 12 else item_height item);
          overlapX = max 0 (min (sel_x selection + sel_width selection) (x + width)
                            - max (sel_x selection) x);
          overlapY = max 0 (min (sel_y selection + sel_height selection) (y + height)
                            - max (sel_y selection) y);
          overlapArea = overlapX * overlapY;
          itemArea = width * height
      in if itemArea \<noteq> 0 \<and> overlapArea / itemArea \<ge> 0.3
         then Some \<lparr>si_str = item_str item,
                     fontSize = (if item_height item = 0 then 12 else item_height item),
                     si_y = y\<rparr>
         else None)"

text \<open>\<^verbatim>\<open>selectedItems\<close> after the \<^verbatim>\<open>forEach\<close>, in the order in which the runs are met.\<close>

definition collect :: "selection \<Rightarrow> viewport \<Rightarrow> text_item list \<Rightarrow> selected_item list" where
  "collect selection viewport items = List.map_filter (covered selection viewport) items"

text \<open>\<^verbatim>\<open>selectedItems\<close> after \<^verbatim>\<open>selectedItems.sort((a, b) => a.y - b.y)\<close>.\<close>

definition sortedSelection :: "selection \<Rightarrow> viewport \<Rightarrow> text_item list \<Rightarrow> selected_item list" where
  "sortedSelection selection viewport items =
     js_sort (\<lambda>a b. Num (si_y a - si_y b)) (collect selection viewport items)"

text \<open>
  \<^verbatim>\<open>avgFontSize\<close>: the sum by \<^verbatim>\<open>reduce\<close>, divided by the length.  For the empty array the
  source divides 0 by 0; the value is then used by no test, the array being empty.
\<close>

definition avgFontSize :: "selected_item list \<Rightarrow> real" where
  "avgFontSize selectedItems =
     foldl (\<lambda>acc item. acc + fontSize item) 0 selectedItems / real (length selectedItems)"

text \<open>The predicate given to \<^verbatim>\<open>selectedItems.filter\<close>.\<close>

definition keepItem :: "selected_item list \<Rightarrow> selected_item \<Rightarrow> bool" where
  "keepItem selectedItems item =
     (let isLargeHeading = fontSize item > avgFontSize selectedItems * 1.5;
          headingCount =
            length (filter (\<lambda>i. fontSize i > avgFontSize selectedItems * 1.5) selectedItems);
          totalItems = length selectedItems
      in \<not> isLargeHeading \<or> real headingCount / real totalItems > 0.5 \<or> totalItems \<le> 3)"

definition filteredItems :: "selected_item list \<Rightarrow> selected_item list" where
  "filteredItems selectedItems = filter (keepItem selectedItems) selectedItems"

text \<open>
  \<^verbatim>\<open>handleMouseUp\<close>: the argument of \<^verbatim>\<open>setSelectedText\<close>, or \<^const>\<open>None\<close> when the handler
  returns before it (no drag, no selection, no text cached for the page, no viewport).
\<close>

definition handleMouseUp ::
  "bool \<Rightarrow> selection option \<Rightarrow> text_item list option \<Rightarrow> viewport option \<Rightarrow> string option" where
  "handleMouseUp isDragging selection pageText viewport =
     (if \<not> isDragging then None
      else case selection of
        None \<Rightarrow> None
      | Some sel \<Rightarrow>
          (case pageText of
             None \<Rightarrow> None
           | Some items \<Rightarrow>
               (case viewport of
                  None \<Rightarrow> None
                | Some vp \<Rightarrow>
                    Some (trim (join '' ''
                            (map si_str (filteredItems (sortedSelection sel vp items))))))))"

subsection \<open>\<^verbatim>\<open>extractFromSelection\<close> of the single-file App\<close>

text \<open>\<^verbatim>\<open>pdfjsLib.Util.transform(m1, m2)\<close>, the product of two transforms.\<close>

definition util_transform :: "matrix \<Rightarrow> matrix \<Rightarrow> matrix" where
  "util_transform a b =
     \<lparr>m0 = m0 a * m0 b + m2 a * m1 b,
      m1 = m1 a * m0 b + m3 a * m1 b,
      m2 = m0 a * m2 b + m2 a * m3 b,
      m3 = m1 a * m2 b + m3 a * m3 b,
      m4 = m0 a * m4 b + m2 a * m5 b + m4 a,
      m5 = m1 a * m4 b + m3 a * m5 b + m5 a\<rparr>"

text \<open>The box \<^verbatim>\<open>{ x, y, width, height }\<close> of a run.\<close>

record box =
  b_x :: real
  b_y :: real
  b_width :: real
  b_height :: real

definition getOverlap :: "selectionBox \<Rightarrow> box \<Rightarrow> real" where
  "getOverlap a b =
     (let xOverlap = max 0 (min (box_left a + box_width a) (b_x b + b_width b)
                            - max (box_left a) (b_x b));
          yOverlap = max 0 (min (box_top a + box_height a) (b_y b + b_height b)
                            - max (box_top a) (b_y b))
      in xOverlap * yOverlap)"

definition run_box :: "viewport \<Rightarrow> text_item \<Rightarrow> box" where
  "run_box viewport item =
     (let tx = util_transform (vp_transform viewport) (item_transform item)
      in \<lparr>b_x = m4 tx, b_y = m5 tx - item_height item,
          b_width = item_width item * vp_scale viewport, b_height = item_height item\<rparr>)"

text \<open>
  The test \<^verbatim>\<open>coverage >= 0.3\<close>; as above, a box of area 0 has overlap 0 and fails it.
\<close>

definition selected :: "selectionBox \<Rightarrow> viewport \<Rightarrow> text_item \<Rightarrow> bool" where
  "selected sel viewport item =
     (let b = run_box viewport item;
          overlap = getOverlap sel b;
          area = b_width b * b_height b
      in area \<noteq> 0 \<and> overlap / area \<ge> 0.3)"

text \<open>
  \<^verbatim>\<open>extractFromSelection\<close>: the argument of \<^verbatim>\<open>setExtractedText\<close>, or \<^const>\<open>None\<close> when
  there is no selection box or no text cached for the page.  The kept strings are joined
  in the order of the \<^verbatim>\<open>forEach\<close>.
\<close>

definition extractFromSelection ::
  "selectionBox option \<Rightarrow> (text_item list \<times> viewport) option \<Rightarrow> string option" where
  "extractFromSelection selectionBox cached =
     (case selectionBox of
        None \<Rightarrow> None
      | Some sel \<Rightarrow>
          (case cached of
             None \<Rightarrow> None
           | Some (items, viewport) \<Rightarrow>
               Some (trim (join '' '' (map item_str (filter (selected sel viewport) items))))))"

section \<open>The chunker\<close>

text \<open>
  The \<^verbatim>\<open>for\<close> loop of \<^verbatim>\<open>chunkText\<close> over the words, on the state \<^verbatim>\<open>(chunks, chunk)\<close>: the
  word is pushed, and the chunk is closed once its joined length reaches \<open>sz\<close>.
\<close>

fun chunk_loop ::
  "nat \<Rightarrow> string list \<Rightarrow> string list \<Rightarrow> string list \<Rightarrow> string list \<times> string list" where
  "chunk_loop sz chunks chunk [] = (chunks, chunk)"
| "chunk_loop sz chunks chunk (w # ws) =
     (let chunk' = chunk @ [w]
      in if length (join '' '' chunk') \<ge> sz
         then chunk_loop sz (chunks @ [join '' '' chunk']) [] ws
         else chunk_loop sz chunks chunk' ws)"

definition chunkText :: "string \<Rightarrow> nat \<Rightarrow> string list" where
  "chunkText text sz =
     (case chunk_loop sz [] [] (split_space text) of
        (chunks, chunk) \<Rightarrow> if chunk \<noteq> [] then chunks @ [join '' '' chunk] else chunks)"

section \<open>Cosine similarity and the hybrid ranker\<close>

text \<open>
  \<^verbatim>\<open>vecB[i]\<close> in arithmetic: a read past the end is undefined and makes the product
  \<^verbatim>\<open>NaN\<close>.
\<close>

definition at_index :: "real list \<Rightarrow> nat \<Rightarrow> jsnum" where
  "at_index v i = (if i < length v then Num (v ! i) else NaN)"

text \<open>\<^verbatim>\<open>vecA.reduce((sum, a, i) => sum + a * vecB[i], 0)\<close>, from index \<open>i\<close> on.\<close>

fun dot_reduce :: "real list \<Rightarrow> jsnum \<Rightarrow> nat \<Rightarrow> real list \<Rightarrow> jsnum" where
  "dot_reduce vecB acc i [] = acc"
| "dot_reduce vecB acc i (a # rest) =
     dot_reduce vecB (js_add acc (js_mul (Num a) (at_index vecB i))) (Suc i) rest"

text \<open>\<^verbatim>\<open>vec.reduce((sum, a) => sum + a * a, 0)\<close>.\<close>

definition sum_squares :: "real list \<Rightarrow> real" where
  "sum_squares v = foldl (\<lambda>acc a. acc + a * a) 0 v"

definition cosineSimilarity :: "real list \<Rightarrow> real list \<Rightarrow> jsnum" where
  "cosineSimilarity vecA vecB =
     (let dot = dot_reduce vecB (Num 0) 0 vecA;
          magA = sqrt (sum_squares vecA);
          magB = sqrt (sum_squares vecB)
      in if magA \<noteq> 0 \<and> magB \<noteq> 0 then js_div dot (magA * magB) else Num 0)"

text \<open>An entry of \<^verbatim>\<open>vectorDB\<close>: \<^verbatim>\<open>{ text, embedding }\<close>.\<close>

record vector_entry =
  entry_text :: string
  embedding :: "real list"

type_synonym scored = "string \<times> jsnum"

text \<open>
  The object \<^verbatim>\<open>combined\<close>, created by \<^verbatim>\<open>{}\<close>: its own properties, an association list
  from chunk text to score in the order in which the keys were first assigned, and the
  properties that it inherits from \<^verbatim>\<open>Object.prototype\<close>, of which these are the names.
\<close>

definition prototype_keys :: "string list" where
  "prototype_keys =
     [''constructor'', ''__defineGetter__'', ''__defineSetter__'', ''hasOwnProperty'',
      ''__lookupGetter__'', ''__lookupSetter__'', ''isPrototypeOf'', ''propertyIsEnumerable'',
      ''toString'', ''valueOf'', ''__proto__'', ''toLocaleString'']"

text \<open>
  The read \<^verbatim>\<open>combined[k]\<close>: the own property if there is one, else the inherited one if
  there is one, else undefined.
\<close>

definition get_property :: "scored list \<Rightarrow> string \<Rightarrow> jsval" where
  "get_property obj k =
     (case map_of obj k of
        Some v \<Rightarrow> Number v
      | None \<Rightarrow> if k \<in> set prototype_keys then Object else Undefined)"

text \<open>Defining or replacing an own property.\<close>

fun put_property :: "scored list \<Rightarrow> string \<Rightarrow> jsnum \<Rightarrow> scored list" where
  "put_property [] k v = [(k, v)]"
| "put_property ((k', v') # kvs) k v =
     (if k' = k then (k, v) # kvs else (k', v') # put_property kvs k v)"

text \<open>
  The assignment \<^verbatim>\<open>combined[k] = v\<close> of a number.  For the key \<^verbatim>\<open>__proto__\<close> it calls the
  setter of \<^verbatim>\<open>Object.prototype\<close>, which ignores a value that is neither an object nor
  null: no own property is made.  Every other key, inherited names included, becomes an
  own property.
\<close>

definition assign :: "scored list \<Rightarrow> string \<Rightarrow> jsnum \<Rightarrow> scored list" where
  "assign obj k v = (if k = ''__proto__'' then obj else put_property obj k v)"

text \<open>
  \<^verbatim>\<open>Object.entries(obj)\<close>: the own properties, those whose key is an array index (the
  decimal form, without leading zeros, of a number below 4294967295) first, in ascending
  numeric order, then the others in the order of their creation.
\<close>

definition is_digit :: "char \<Rightarrow> bool" where
  "is_digit c \<longleftrightarrow> 48 \<le> (of_char c :: nat) \<and> (of_char c :: nat) \<le> 57"

definition index_value :: "string \<Rightarrow> nat" where
  "index_value s = foldl (\<lambda>n c. 10 * n + ((of_char c :: nat) - 48)) 0 s"

definition is_array_index :: "string \<Rightarrow> bool" where
  "is_array_index s =
     (case s of
        [] \<Rightarrow> False
      | c # cs \<Rightarrow>
          list_all is_digit s \<and> (cs = [] \<or> c \<noteq> CHR ''0'') \<and> index_value s < 4294967295)"

definition object_entries :: "scored list \<Rightarrow> scored list" where
  "object_entries obj =
     sort_key (\<lambda>(k, v). index_value k) (filter (\<lambda>(k, v). is_array_index k) obj) @
     filter (\<lambda>(k, v). \<not> is_array_index k) obj"

text \<open>\<^verbatim>\<open>vectorDB.map((e) => ({ text: e.text, score: cosineSimilarity(vec, e.embedding) }))\<close>.\<close>

definition scoreAgainst :: "real list \<Rightarrow> vector_entry list \<Rightarrow> scored list" where
  "scoreAgainst vec vectorDB =
     map (\<lambda>e. (entry_text e, cosineSimilarity vec (embedding e))) vectorDB"

text \<open>The first \<^verbatim>\<open>forEach\<close>: \<^verbatim>\<open>combined[text] = score\<close>.\<close>

definition mergeQuestion :: "scored list \<Rightarrow> scored list" where
  "mergeQuestion scoredByQuestion =
     foldl (\<lambda>combined (text, score). assign combined text score) [] scoredByQuestion"

text \<open>
  The second \<^verbatim>\<open>forEach\<close>:
  \<^verbatim>\<open>combined[text] = Math.max(combined[text] || 0, score * 1.1)\<close>.
\<close>

definition mergeSelection :: "scored list \<Rightarrow> scored list \<Rightarrow> scored list" where
  "mergeSelection combined scoredBySelection =
     foldl (\<lambda>combined (text, score).
              assign combined text
                (js_max (js_to_number (js_or_zero (get_property combined text)))
                   (js_mul score (Num 1.1))))
       combined scoredBySelection"

text \<open>
  \<^verbatim>\<open>combinedArray\<close>: the entries of \<^verbatim>\<open>combined\<close>, after the sort by descending score.  The
  embedder is a function from a text to its vector (\<^verbatim>\<open>(await embedder(t)).data[0]\<close> in
  the source).
\<close>

definition combinedArray ::
  "(string \<Rightarrow> real list) \<Rightarrow> string \<Rightarrow> string \<Rightarrow> vector_entry list \<Rightarrow> scored list" where
  "combinedArray embedder question primaryExcerpt vectorDB =
     (let qVec = embedder question;
          scoredByQuestion = scoreAgainst qVec vectorDB;
          combined = mergeQuestion scoredByQuestion;
          combined' =
            (if primaryExcerpt \<noteq> []
             then mergeSelection combined (scoreAgainst (embedder primaryExcerpt) vectorDB)
             else combined)
      in js_sort (\<lambda>a b. js_sub (snd b) (snd a)) (object_entries combined'))"

text \<open>The loop that picks the supplements, on the array \<^verbatim>\<open>supplements\<close> built so far.\<close>

fun pick :: "string \<Rightarrow> string list \<Rightarrow> scored list \<Rightarrow> string list" where
  "pick primaryExcerpt supplements [] = supplements"
| "pick primaryExcerpt supplements (entry # rest) =
     (if length supplements \<ge> 3 then supplements
      else if primaryExcerpt \<noteq> [] \<and> fst entry = primaryExcerpt
      then pick primaryExcerpt supplements rest
      else pick primaryExcerpt (supplements @ [fst entry]) rest)"

text \<open>
  The retrieval part of \<^verbatim>\<open>handleAsk\<close>: the supplements, \<^const>\<open>None\<close> when the handler
  returns at once on an empty question.  There are none when the index is empty or the
  embedder is not loaded (\<^const>\<open>None\<close>).
\<close>

definition handleAsk_supplements ::
  "string \<Rightarrow> string \<Rightarrow> vector_entry list \<Rightarrow> (string \<Rightarrow> real list) option \<Rightarrow>
   string list option" where
  "handleAsk_supplements question extractedText vectorDB embedder =
     (if question = [] then None
      else
        let primaryExcerpt = trim extractedText
        in (case embedder of
              None \<Rightarrow> Some []
            | Some emb \<Rightarrow>
                if vectorDB = [] then Some []
                else Some (pick primaryExcerpt []
                             (combinedArray emb question primaryExcerpt vectorDB))))"

text \<open>\<^verbatim>\<open>supplementaryText\<close>: the supplements joined by blank lines.\<close>

definition supplementaryText :: "string list \<Rightarrow> string" where
  "supplementaryText supplements = join [CHR 0x0A, CHR 0x0A] supplements"

text \<open>
  The index that \<^verbatim>\<open>loadPdf\<close> stores in \<^verbatim>\<open>vectorDB\<close> when the embedder is loaded: the text
  of each page is its runs joined by spaces, the pages are joined by spaces, and every
  chunk of the result is stored with its embedding.
\<close>

definition loadPdf_vectorDB :: "(string \<Rightarrow> real list) \<Rightarrow> text_item list list \<Rightarrow> vector_entry list" where
  "loadPdf_vectorDB embedder pages =
     (let allTextArray = map (\<lambda>items. join '' '' (map item_str items)) pages;
          joined = join '' '' allTextArray;
          chunks = chunkText joined 400
      in map (\<lambda>chunk. \<lparr>entry_text = chunk, embedding = embedder chunk\<rparr>) chunks)"

section \<open>The answering server (\<^verbatim>\<open>/api/ask\<close>)\<close>

subsection \<open>String operations of the runtime\<close>

fun startsWith :: "string \<Rightarrow> string \<Rightarrow> bool" where
  "startsWith s [] = True"
| "startsWith [] (c # cs) = False"
| "startsWith (d # ds) (c # cs) = (d = c \<and> startsWith ds cs)"

text \<open>\<^verbatim>\<open>s.includes(sub)\<close>: \<^verbatim>\<open>sub\<close> occurs in \<^verbatim>\<open>s\<close> as a contiguous substring.\<close>

fun includes_str :: "string \<Rightarrow> string \<Rightarrow> bool" where
  "includes_str [] sub = (sub = [])"
| "includes_str (d # ds) sub = (startsWith (d # ds) sub \<or> includes_str ds sub)"

text \<open>
  \<^verbatim>\<open>Buffer.from(s).toString('base64')\<close>: the UTF-8 bytes of the string, in base64 with
  padding.  A character below 128 is one byte, one from 128 to 255 is two.
\<close>

definition utf8 :: "string \<Rightarrow> nat list" where
  "utf8 s = concat (map (\<lambda>c. let n = (of_char c :: nat)
                              in if n < 128 then [n] else [192 + n div 64, 128 + n mod 64]) s)"

definition base64_alphabet :: string where
  "base64_alphabet = ''ABCDEFGHIJKLMNOPQRSTUVWXYZabcdefghijklmnopqrstuvwxyz0123456789+/''"

definition sextet :: "nat \<Rightarrow> char" where
  "sextet n = base64_alphabet ! (n mod 64)"

fun base64 :: "nat list \<Rightarrow> string" where
  "base64 [] = []"
| "base64 [a] = [sextet (a div 4), sextet ((a mod 4) * 16), CHR ''='', CHR ''='']"
| "base64 [a, b] =
     [sextet (a div 4), sextet ((a mod 4) * 16 + b div 16), sextet ((b mod 16) * 4), CHR ''='']"
| "base64 (a # b # c # r) =
     sextet (a div 4) # sextet ((a mod 4) * 16 + b div 16) #
     sextet ((b mod 16) * 4 + c div 64) # sextet (c mod 64) # base64 r"

subsection \<open>Adapters and their dispatch\<close>

datatype adapter = OpenAIAdapter | AnthropicAdapter | FallbackAdapter

text \<open>
  The two module-level clients: each is an object when its API key is in the environment
  and \<^verbatim>\<open>null\<close> otherwise; only that is tested.
\<close>

record clients =
  openai :: bool
  anthropic :: bool

text \<open>
  \<^verbatim>\<open>getModelAdapter(preferredModel)\<close>.  The argument is the \<^verbatim>\<open>model\<close> field of the request
  body, \<^const>\<open>None\<close> when it is absent; it is compared with \<^verbatim>\<open>===\<close> against two literals.
\<close>

definition getModelAdapter :: "clients \<Rightarrow> string option \<Rightarrow> adapter" where
  "getModelAdapter cl preferredModel =
     (if preferredModel = Some ''openai'' \<and> openai cl then OpenAIAdapter
      else if preferredModel = Some ''anthropic'' \<and> anthropic cl then AnthropicAdapter
      else if openai cl then OpenAIAdapter
      else if anthropic cl then AnthropicAdapter
      else FallbackAdapter)"

record ai_response =
  answer :: string
  source :: string

text \<open>
  \<^verbatim>\<open>adapter.generateResponse(context, question)\<close> is a call to a service outside the
  program: it either returns a response or throws an error, of which the handler reads
  only \<^verbatim>\<open>error.message\<close> (possibly undefined).  The services are a parameter of the
  handler.
\<close>

datatype outcome = Returned ai_response | Threw "string option"

type_synonym backend = "adapter \<Rightarrow> string \<Rightarrow> string \<Rightarrow> outcome"

subsection \<open>The response cache\<close>

text \<open>
  \<^verbatim>\<open>new NodeCache({ stdTTL: 86400 })\<close>: a store from keys to values, each with the time
  (in milliseconds) at which it expires, 86400 seconds after it was set.  \<^verbatim>\<open>get\<close> returns
  undefined for an absent key and for one whose time has passed, which it deletes.
\<close>

type_synonym cache = "string \<rightharpoonup> (ai_response \<times> nat)"

definition stdTTL :: nat where
  "stdTTL = 86400"

definition cache_get :: "nat \<Rightarrow> cache \<Rightarrow> string \<Rightarrow> ai_response option \<times> cache" where
  "cache_get now c k =
     (case c k of
        None \<Rightarrow> (None, c)
      | Some (v, t) \<Rightarrow> if t < now then (None, c(k := None)) else (Some v, c))"

definition cache_set :: "nat \<Rightarrow> cache \<Rightarrow> string \<Rightarrow> ai_response \<Rightarrow> cache" where
  "cache_set now c k v = c(k \<mapsto> (v, now + stdTTL * 1000))"

subsection \<open>The handler\<close>

text \<open>The JSON body of the request; a field is \<^const>\<open>None\<close> when absent or null.\<close>

record ask_body =
  req_context :: "string option"
  req_question :: "string option"
  req_model :: "string option"

datatype res_body = ErrorBody string | Answer ai_response

record http_response =
  status :: nat
  body :: res_body

text \<open>The \<^verbatim>\<open>catch\<close> block: the status is chosen from the error's message.\<close>

definition error_response :: "string option \<Rightarrow> http_response" where
  "error_response message =
     (if (case message of None \<Rightarrow> False | Some m \<Rightarrow> includes_str m ''API key'')
      then \<lparr>status = 401, body = ErrorBody ''Invalid API key configuration''\<rparr>
      else if (case message of None \<Rightarrow> False
               | Some m \<Rightarrow> includes_str m ''quota'' \<or> includes_str m ''rate limit'')
      then \<lparr>status = 429, body = ErrorBody ''API rate limit exceeded. Please try again later.''\<rparr>
      else \<lparr>status = 500, body = ErrorBody ''Internal server error. Please try again.''\<rparr>)"

definition cacheKey :: "string \<Rightarrow> string \<Rightarrow> string" where
  "cacheKey context question = base64 (utf8 (context @ ''|'' @ question))"

text \<open>
  \<^verbatim>\<open>app.post('/api/ask', ...)\<close>, one request handled to its end at time \<open>now\<close> on the cache
  \<open>c\<close>.  The result is the cache afterwards, the response sent, and the log of the calls
  made to \<^verbatim>\<open>generateResponse\<close> (adapter, context, question).  \<^verbatim>\<open>!context\<close> holds of an
  absent field and of the empty string.  \<^verbatim>\<open>res.json\<close> without \<^verbatim>\<open>res.status\<close> sends 200.
\<close>

type_synonym call = "adapter \<times> string \<times> string"

definition api_ask ::
  "clients \<Rightarrow> backend \<Rightarrow> nat \<Rightarrow> cache \<Rightarrow> ask_body \<Rightarrow> cache \<times> http_response \<times> call list" where
  "api_ask cl gen now c b =
     (let required = \<lparr>status = 400, body = ErrorBody ''Both context and question are required''\<rparr>
      in case req_context b of
           None \<Rightarrow> (c, required, [])
         | Some context \<Rightarrow>
             (case req_question b of
                None \<Rightarrow> (c, required, [])
              | Some question \<Rightarrow>
                  if context = [] \<or> question = [] then (c, required, [])
                  else if length context > 10000 then
                    (c, \<lparr>status = 400,
                         body = ErrorBody ''Context text is too long (max 10,000 characters)''\<rparr>, [])
                  else if length question > 1000 then
                    (c, \<lparr>status = 400,
                         body = ErrorBody ''Question is too long (max 1,000 characters)''\<rparr>, [])
                  else
                    (case cache_get now c (cacheKey context question) of
                       (Some cachedResponse, c') \<Rightarrow>
                         (c', \<lparr>status = 200, body = Answer cachedResponse\<rparr>, [])
                     | (None, c') \<Rightarrow>
                         let adapter = getModelAdapter cl (req_model b)
                         in (case gen adapter context question of
                               Returned response \<Rightarrow>
                                 (cache_set now c' (cacheKey context question) response,
                                  \<lparr>status = 200, body = Answer response\<rparr>,
                                  [(adapter, context, question)])
                             | Threw message \<Rightarrow>
                                 (c', error_response message,
                                  [(adapter, context, question)])))))"

text \<open>
  Requests are handled one after the other, each at its own time, on the cache that the
  one before has left.
\<close>

fun serve :: "clients \<Rightarrow> backend \<Rightarrow> cache \<Rightarrow> (nat \<times> ask_body) list \<Rightarrow> cache" where
  "serve cl gen c [] = c"
| "serve cl gen c ((now, b) # reqs) = serve cl gen (fst (api_ask cl gen now c b)) reqs"

section \<open>Notions of the specification\<close>

text \<open>
  The words of a text in the sense of the specification: the maximal runs of characters
  that are not white space.
\<close>

fun words_from :: "string \<Rightarrow> string \<Rightarrow> string list" where
  "words_from cur [] = (if cur = [] then [] else [cur])"
| "words_from cur (c # cs) =
     (if is_space c then (if cur = [] then [] else [cur]) @ words_from [] cs
      else words_from (cur @ [c]) cs)"

definition whitespace_words :: "string \<Rightarrow> string list" where
  "whitespace_words s = words_from [] s"

text \<open>The dot product and the magnitude of vectors, and their cosine.\<close>

definition dot_product :: "real list \<Rightarrow> real list \<Rightarrow> real" where
  "dot_product u v = (\<Sum>i<length u. u ! i * v ! i)"

definition magnitude :: "real list \<Rightarrow> real" where
  "magnitude u = sqrt (\<Sum>x\<leftarrow>u. x * x)"

definition cosine :: "real list \<Rightarrow> real list \<Rightarrow> real" where
  "cosine u v =
     (if magnitude u \<noteq> 0 \<and> magnitude v \<noteq> 0
      then dot_product u v / (magnitude u * magnitude v) else 0)"

text \<open>
  A heading candidate among the kept runs: a run whose font size exceeds 1.5 times the
  average font size of the kept runs.
\<close>

definition heading_candidate :: "selected_item list \<Rightarrow> selected_item \<Rightarrow> bool" where
  "heading_candidate kept run \<longleftrightarrow>
     fontSize run > 1.5 * (sum_list (map fontSize kept) / real (length kept))"

section \<open>Theorems\<close>

text \<open>
  C10.  Every selection rectangle set during a drag is normalised, in both viewers: its
  width and height are non-negative and its origin is the componentwise minimum of the
  drag anchor and the cursor position (the client coordinates minus the canvas origin),
  whatever the direction of the drag.  The far corner is then the componentwise maximum.
\<close>

theorem selection_normalised:
  "(handleMouseMove isDragging dragStart canvas e = Some s \<longrightarrow>
      (\<exists>rect. canvas = Some rect \<and>
        0 \<le> sel_width s \<and> 0 \<le> sel_height s \<and>
        sel_x s = min (pt_x dragStart) (clientX e - rect_left rect) \<and>
        sel_y s = min (pt_y dragStart) (clientY e - rect_top rect) \<and>
        sel_x s + sel_width s = max (pt_x dragStart) (clientX e - rect_left rect) \<and>
        sel_y s + sel_height s = max (pt_y dragStart) (clientY e - rect_top rect))) \<and>
   (onMouseMove startPos canvas' e' = Inr (Some b) \<longrightarrow>
      (\<exists>start rect. startPos = Some start \<and> canvas' = Some rect \<and>
        0 \<le> box_width b \<and> 0 \<le> box_height b \<and>
        box_left b = min (pt_x start) (clientX e' - rect_left rect) \<and>
        box_top b = min (pt_y start) (clientY e' - rect_top rect) \<and>
        box_left b + box_width b = max (pt_x start) (clientX e' - rect_left rect) \<and>
        box_top b + box_height b = max (pt_y start) (clientY e' - rect_top rect)))"
proof (intro conjI impI)
  assume "handleMouseMove isDragging dragStart canvas e = Some s"
  then show "\<exists>rect. canvas = Some rect \<and>
        0 \<le> sel_width s \<and> 0 \<le> sel_height s \<and>
        sel_x s = min (pt_x dragStart) (clientX e - rect_left rect) \<and>
        sel_y s = min (pt_y dragStart) (clientY e - rect_top rect) \<and>
        sel_x s + sel_width s = max (pt_x dragStart) (clientX e - rect_left rect) \<and>
        sel_y s + sel_height s = max (pt_y dragStart) (clientY e - rect_top rect)"
    by (auto simp: handleMouseMove_def Let_def split: option.splits if_splits)
next
  assume "onMouseMove startPos canvas' e' = Inr (Some b)"
  then show "\<exists>start rect. startPos = Some start \<and> canvas' = Some rect \<and>
        0 \<le> box_width b \<and> 0 \<le> box_height b \<and>
        box_left b = min (pt_x start) (clientX e' - rect_left rect) \<and>
        box_top b = min (pt_y start) (clientY e' - rect_top rect) \<and>
        box_left b + box_width b = max (pt_x start) (clientX e' - rect_left rect) \<and>
        box_top b + box_height b = max (pt_y start) (clientY e' - rect_top rect)"
    by (auto simp: onMouseMove_def Let_def split: option.splits)
qed

theorem selection_normalised_witness:
  "handleMouseMove True \<lparr>pt_x = 50, pt_y = 40\<rparr> (Some \<lparr>rect_left = 10, rect_top = 5\<rparr>)
      \<lparr>clientX = 30, clientY = 25\<rparr>
     = Some \<lparr>sel_x = 20, sel_y = 20, sel_width = 30, sel_height = 20\<rparr> \<and>
   onMouseMove (Some \<lparr>pt_x = 50, pt_y = 40\<rparr>) (Some \<lparr>rect_left = 10, rect_top = 5\<rparr>)
      \<lparr>clientX = 30, clientY = 25\<rparr>
     = Inr (Some \<lparr>box_left = 20, box_top = 20, box_width = 30, box_height = 20\<rparr>) \<and>
   (0::real) \<le> 30 \<and> (20::real) + 30 = max 50 (30 - 10)"
  using selection_normalised
    [of True "\<lparr>pt_x = 50, pt_y = 40\<rparr>" "Some \<lparr>rect_left = 10, rect_top = 5\<rparr>"
        "\<lparr>clientX = 30, clientY = 25\<rparr>"
        "\<lparr>sel_x = 20, sel_y = 20, sel_width = 30, sel_height = 20\<rparr>"
        "Some \<lparr>pt_x = 50, pt_y = 40\<rparr>" "Some \<lparr>rect_left = 10, rect_top = 5\<rparr>"
        "\<lparr>clientX = 30, clientY = 25\<rparr>"
        "\<lparr>box_left = 20, box_top = 20, box_width = 30, box_height = 20\<rparr>"]
  by (simp add: handleMouseMove_def onMouseMove_def)

text \<open>
  C7.  The handler of \<^verbatim>\<open>/api/ask\<close> answers with status 400, calls no adapter and leaves
  the cache as it was, whenever the body lacks the context or the question (or has an
  empty one), the context is longer than 10,000 characters or the question is longer than
  1,000 characters.
\<close>

theorem ask_rejects_invalid:
  assumes "req_context b = None \<or> req_context b = Some [] \<or>
           req_question b = None \<or> req_question b = Some [] \<or>
           (\<exists>context. req_context b = Some context \<and> length context > 10000) \<or>
           (\<exists>question. req_question b = Some question \<and> length question > 1000)"
  shows "\<exists>msg. api_ask cl gen now c b = (c, \<lparr>status = 400, body = ErrorBody msg\<rparr>, [])"
  using assms
  by (auto simp: api_ask_def Let_def split: option.splits)

theorem ask_rejects_invalid_witness:
  "api_ask \<lparr>openai = True, anthropic = False\<rparr>
       (\<lambda>a c q. Returned \<lparr>answer = ''x'', source = ''GPT-4 Turbo''\<rparr>) 0 Map.empty
       \<lparr>req_context = Some (replicate 10001 (CHR ''a'')), req_question = Some ''q'',
        req_model = None\<rparr>
     = (Map.empty,
        \<lparr>status = 400, body = ErrorBody ''Context text is too long (max 10,000 characters)''\<rparr>,
        [])"
  using ask_rejects_invalid
    [of "\<lparr>req_context = Some (replicate 10001 (CHR ''a'')), req_question = Some ''q'',
          req_model = None\<rparr>"
        "\<lparr>openai = True, anthropic = False\<rparr>"
        "\<lambda>a c q. Returned \<lparr>answer = ''x'', source = ''GPT-4 Turbo''\<rparr>" 0 Map.empty]
  by (simp add: api_ask_def)

text \<open>
  C8.  After a request that was answered with status 200 at time \<open>t1\<close>, the response is
  in the cache under the base64 form of the exact string \<^verbatim>\<open>context|question\<close>, with an
  expiry time that is \<open>t1\<close> plus 24 hours when an adapter was called.  Every later request
  with the same context and question, made no later than the expiry time, is answered
  with the same response, calls no adapter (whatever the clients, the services and the
  \<^verbatim>\<open>model\<close> field are then) and leaves the cache unchanged.
\<close>

theorem ask_cached_within_ttl:
  assumes first: "api_ask cl gen t1 c b = (c1, r1, calls1)"
      and ok: "status r1 = 200"
  shows "\<exists>context question response expiry.
           req_context b = Some context \<and> req_question b = Some question \<and>
           r1 = \<lparr>status = 200, body = Answer response\<rparr> \<and>
           c1 (base64 (utf8 (context @ ''|'' @ question))) = Some (response, expiry) \<and>
           t1 \<le> expiry \<and>
           (calls1 \<noteq> [] \<longrightarrow> expiry = t1 + 86400 * 1000) \<and>
           (\<forall>t2 cl' gen' b'. t2 \<le> expiry \<and> req_context b' = Some context \<and>
                 req_question b' = Some question \<longrightarrow>
              api_ask cl' gen' t2 c1 b' = (c1, r1, []))"
  using assms
  by (auto simp: api_ask_def Let_def cache_get_def cache_set_def cacheKey_def stdTTL_def
        error_response_def split: option.splits if_splits prod.splits outcome.splits)

theorem ask_cached_within_ttl_witness:
  "api_ask \<lparr>openai = False, anthropic = False\<rparr>
       (\<lambda>a c q. Returned \<lparr>answer = ''A'', source = ''Demo Mode''\<rparr>) 1000 Map.empty
       \<lparr>req_context = Some ''ctx'', req_question = Some ''q'', req_model = None\<rparr>
     = ([''Y3R4fHE='' \<mapsto> (\<lparr>answer = ''A'', source = ''Demo Mode''\<rparr>, 86401000)],
        \<lparr>status = 200, body = Answer \<lparr>answer = ''A'', source = ''Demo Mode''\<rparr>\<rparr>,
        [(FallbackAdapter, ''ctx'', ''q'')]) \<and>
   api_ask \<lparr>openai = True, anthropic = True\<rparr> (\<lambda>a c q. Threw None) 86401000
       [''Y3R4fHE='' \<mapsto> (\<lparr>answer = ''A'', source = ''Demo Mode''\<rparr>, 86401000)]
       \<lparr>req_context = Some ''ctx'', req_question = Some ''q'', req_model = Some ''openai''\<rparr>
     = ([''Y3R4fHE='' \<mapsto> (\<lparr>answer = ''A'', source = ''Demo Mode''\<rparr>, 86401000)],
        \<lparr>status = 200, body = Answer \<lparr>answer = ''A'', source = ''Demo Mode''\<rparr>\<rparr>, [])"
proof -
  let ?b = "\<lparr>req_context = Some ''ctx'', req_question = Some ''q'', req_model = None\<rparr>"
  let ?b' = "\<lparr>req_context = Some ''ctx'', req_question = Some ''q'',
              req_model = Some ''openai''\<rparr>"
  let ?resp = "\<lparr>answer = ''A'', source = ''Demo Mode''\<rparr>"
  let ?c1 = "[''Y3R4fHE='' \<mapsto> (?resp, 86401000::nat)]"
  let ?r1 = "\<lparr>status = 200, body = Answer ?resp\<rparr>"
  have first: "api_ask \<lparr>openai = False, anthropic = False\<rparr> (\<lambda>a c q. Returned ?resp) 1000
                 Map.empty ?b = (?c1, ?r1, [(FallbackAdapter, ''ctx'', ''q'')])"
    by (simp add: api_ask_def cache_get_def cache_set_def cacheKey_def stdTTL_def utf8_def
          sextet_def base64_alphabet_def getModelAdapter_def)
  have ok: "status ?r1 = 200"
    by simp
  from ask_cached_within_ttl [OF first ok] obtain ctx qn response expiry where
    h: "req_context ?b = Some ctx" "req_question ?b = Some qn"
       "[(FallbackAdapter, ''ctx'', ''q'')] \<noteq> [] \<longrightarrow> expiry = 1000 + 86400 * 1000"
       "\<forall>t2 cl' gen' b'. t2 \<le> expiry \<and> req_context b' = Some ctx \<and>
             req_question b' = Some qn \<longrightarrow>
          api_ask cl' gen' t2 ?c1 b' = (?c1, ?r1, [])"
    by blast
  from h(1,2) have cq: "ctx = ''ctx''" "qn = ''q''"
    by simp_all
  from h(3) have e: "expiry = 86401000"
    by simp
  have "api_ask \<lparr>openai = True, anthropic = True\<rparr> (\<lambda>a c q. Threw None) 86401000 ?c1 ?b'
          = (?c1, ?r1, [])"
    using h(4) [rule_format, of 86401000 ?b'] cq e by simp
  with first show ?thesis
    by simp
qed

text \<open>
  The cached response also survives any other requests handled in between, none later
  than its expiry time: no request handled before the expiry of an entry changes it.
\<close>

lemma api_ask_keeps_entry:
  assumes "c k = Some (v, expiry)" and "now \<le> expiry"
  shows "fst (api_ask cl gen now c b) k = Some (v, expiry)"
  using assms
  by (auto simp: api_ask_def Let_def cache_get_def cache_set_def
        split: option.splits if_splits prod.splits outcome.splits)

lemma serve_keeps_entry:
  "c k = Some (v, expiry) \<Longrightarrow> list_all (\<lambda>(t, b). t \<le> expiry) reqs \<Longrightarrow>
   serve cl gen c reqs k = Some (v, expiry)"
proof (induction reqs arbitrary: c)
  case Nil
  then show ?case by simp
next
  case (Cons r reqs)
  obtain t b where r: "r = (t, b)" by (cases r)
  with Cons.prems have "fst (api_ask cl gen t c b) k = Some (v, expiry)"
    by (intro api_ask_keeps_entry) simp_all
  with Cons r show ?case by simp
qed

lemma cached_answer_after_other_requests:
  assumes "c (cacheKey context question) = Some (response, expiry)"
    and "list_all (\<lambda>(t, b). t \<le> expiry) reqs" and "t2 \<le> expiry"
    and "req_context b = Some context" and "req_question b = Some question"
    and "context \<noteq> []" and "question \<noteq> []"
    and "length context \<le> 10000" and "length question \<le> 1000"
  shows "api_ask cl' gen' t2 (serve cl gen c reqs) b =
           (serve cl gen c reqs, \<lparr>status = 200, body = Answer response\<rparr>, [])"
proof -
  have "serve cl gen c reqs (cacheKey context question) = Some (response, expiry)"
    using assms(1,2) by (rule serve_keeps_entry)
  with assms(3-) show ?thesis
    by (simp add: api_ask_def cache_get_def)
qed

text \<open>
  C9.  The dispatch is total and never fails: \<^verbatim>\<open>getModelAdapter\<close> returns the adapter of
  the preferred provider when that provider is configured, and otherwise the OpenAI
  adapter if OpenAI is configured, else the Anthropic adapter if Anthropic is configured,
  else the demo FallbackAdapter.  So a valid request, not in the cache, that names a
  provider which is not configured is passed to another adapter: it is not answered with
  status 400, and it is answered with status 200 and that adapter's response when that
  adapter returns one.
\<close>

theorem getModelAdapter_total:
  "(preferredModel = Some ''openai'' \<and> openai cl \<longrightarrow>
      getModelAdapter cl preferredModel = OpenAIAdapter) \<and>
   (preferredModel = Some ''anthropic'' \<and> anthropic cl \<longrightarrow>
      getModelAdapter cl preferredModel = AnthropicAdapter) \<and>
   (\<not> (preferredModel = Some ''openai'' \<and> openai cl) \<and>
    \<not> (preferredModel = Some ''anthropic'' \<and> anthropic cl) \<longrightarrow>
      getModelAdapter cl preferredModel =
        (if openai cl then OpenAIAdapter else if anthropic cl then AnthropicAdapter
         else FallbackAdapter)) \<and>
   (req_context b = Some context \<and> context \<noteq> [] \<and> length context \<le> 10000 \<and>
    req_question b = Some question \<and> question \<noteq> [] \<and> length question \<le> 1000 \<and>
    fst (cache_get now c (cacheKey context question)) = None \<and>
    (req_model b = Some ''openai'' \<and> \<not> openai cl \<and> named = OpenAIAdapter \<or>
     req_model b = Some ''anthropic'' \<and> \<not> anthropic cl \<and> named = AnthropicAdapter) \<longrightarrow>
      (\<exists>c' r other.
          api_ask cl gen now c b = (c', r, [(other, context, question)]) \<and>
          other = getModelAdapter cl (req_model b) \<and> other \<noteq> named \<and> status r \<noteq> 400 \<and>
          (\<forall>response. gen other context question = Returned response \<longrightarrow>
              r = \<lparr>status = 200, body = Answer response\<rparr>)))"
  by (auto simp: getModelAdapter_def api_ask_def Let_def error_response_def
        split: option.splits prod.splits outcome.splits)

theorem getModelAdapter_total_witness:
  "getModelAdapter \<lparr>openai = True, anthropic = False\<rparr> (Some ''openai'') = OpenAIAdapter \<and>
   getModelAdapter \<lparr>openai = True, anthropic = True\<rparr> (Some ''anthropic'') = AnthropicAdapter \<and>
   getModelAdapter \<lparr>openai = True, anthropic = False\<rparr> (Some ''anthropic'') = OpenAIAdapter \<and>
   api_ask \<lparr>openai = True, anthropic = False\<rparr>
       (\<lambda>a c q. if a = OpenAIAdapter then Returned \<lparr>answer = ''A'', source = ''GPT-4 Turbo''\<rparr>
                 else Threw None) 0 Map.empty
       \<lparr>req_context = Some ''ctx'', req_question = Some ''q'', req_model = Some ''anthropic''\<rparr>
     = ([''Y3R4fHE='' \<mapsto> (\<lparr>answer = ''A'', source = ''GPT-4 Turbo''\<rparr>, 86400000)],
        \<lparr>status = 200, body = Answer \<lparr>answer = ''A'', source = ''GPT-4 Turbo''\<rparr>\<rparr>,
        [(OpenAIAdapter, ''ctx'', ''q'')])"
  using getModelAdapter_total
    [of "Some ''openai''" "\<lparr>openai = True, anthropic = False\<rparr>"
        "\<lparr>req_context = Some ''ctx'', req_question = Some ''q'', req_model = Some ''anthropic''\<rparr>"
        "''ctx''" "''q''" 0 Map.empty AnthropicAdapter
        "\<lambda>a c q. if a = OpenAIAdapter then Returned \<lparr>answer = ''A'', source = ''GPT-4 Turbo''\<rparr>
                 else Threw None"]
  by (simp add: getModelAdapter_def api_ask_def cache_get_def cache_set_def cacheKey_def
        stdTTL_def utf8_def sextet_def base64_alphabet_def)

section \<open>Lemmas on the runtime operations\<close>

lemma join_Cons: "join sep (w # ws) = (if ws = [] then w else w @ sep @ join sep ws)"
  by (cases ws) simp_all

lemma join_append:
  "xs \<noteq> [] \<Longrightarrow> ys \<noteq> [] \<Longrightarrow> join sep (xs @ ys) = join sep xs @ sep @ join sep ys"
  by (induction xs) (simp_all add: join_Cons)

lemma split_space_nonempty: "split_space s \<noteq> []"
  by (induction s) (simp_all split: list.splits)

lemma join_split_space: "join '' '' (split_space s) = s"
proof (induction s)
  case Nil
  show ?case by simp
next
  case (Cons c cs)
  show ?case
  proof (cases "c = CHR '' ''")
    case True
    with Cons split_space_nonempty [of cs] show ?thesis
      by (simp add: join_Cons)
  next
    case False
    with Cons split_space_nonempty [of cs] show ?thesis
      by (cases "split_space cs") (simp_all add: join_Cons split: if_splits)
  qed
qed

lemma split_space_no_space: "w \<in> set (split_space s) \<Longrightarrow> CHR '' '' \<notin> set w"
  by (induction s arbitrary: w) (auto split: if_splits list.splits)

lemma split_space_join:
  "ws \<noteq> [] \<Longrightarrow> (\<And>w. w \<in> set ws \<Longrightarrow> CHR '' '' \<notin> set w) \<Longrightarrow> split_space (join '' '' ws) = ws"
proof (induction ws)
  case Nil
  then show ?case by simp
next
  case (Cons w ws)
  have nosp: "CHR '' '' \<notin> set w" using Cons.prems by simp
  have app: "\<And>rest. rest \<noteq> [] \<Longrightarrow> CHR '' '' \<notin> set w \<Longrightarrow>
     split_space (w @ CHR '' '' # join '' '' ws) = w # split_space (join '' '' ws)"
    by (induction w) (auto split: list.splits)
  have single: "CHR '' '' \<notin> set w \<Longrightarrow> split_space w = [w]"
    by (induction w) (auto split: list.splits)
  show ?case
  proof (cases "ws = []")
    case True
    with single nosp show ?thesis by simp
  next
    case False
    with Cons have "split_space (join '' '' ws) = ws" by simp
    with app [OF False nosp] False show ?thesis by (simp add: join_Cons)
  qed
qed

lemma chunk_loop_groups:
  "chunk_loop sz chunks chunk ws = (cs, ch) \<Longrightarrow>
   \<exists>gs. cs = chunks @ map (join '' '') gs \<and> [] \<notin> set gs \<and> concat gs @ ch = chunk @ ws"
proof (induction ws arbitrary: chunks chunk)
  case Nil
  then show ?case by (intro exI [of _ "[]"]) simp
next
  case (Cons w ws)
  show ?case
  proof (cases "length (join '' '' (chunk @ [w])) \<ge> sz")
    case True
    with Cons.prems have "chunk_loop sz (chunks @ [join '' '' (chunk @ [w])]) [] ws = (cs, ch)"
      by simp
    from Cons.IH [OF this] obtain gs where
      "cs = (chunks @ [join '' '' (chunk @ [w])]) @ map (join '' '') gs" "[] \<notin> set gs"
      "concat gs @ ch = [] @ ws" by blast
    then show ?thesis
      by (intro exI [of _ "(chunk @ [w]) # gs"]) simp
  next
    case False
    with Cons.prems have "chunk_loop sz chunks (chunk @ [w]) ws = (cs, ch)"
      by simp
    from Cons.IH [OF this] show ?thesis by simp
  qed
qed

lemma chunkText_groups:
  "\<exists>groups. concat groups = split_space text \<and> [] \<notin> set groups \<and>
      chunkText text sz = map (join '' '') groups"
proof -
  obtain cs ch where r: "chunk_loop sz [] [] (split_space text) = (cs, ch)"
    by (cases "chunk_loop sz [] [] (split_space text)")
  from chunk_loop_groups [OF r] obtain gs where
    gs: "cs = map (join '' '') gs" "[] \<notin> set gs" "concat gs @ ch = split_space text"
    by auto
  show ?thesis
  proof (cases "ch = []")
    case True
    with r gs show ?thesis
      by (intro exI [of _ gs]) (simp add: chunkText_def)
  next
    case False
    with r gs show ?thesis
      by (intro exI [of _ "gs @ [ch]"]) (simp add: chunkText_def)
  qed
qed

lemma join_map_join:
  "[] \<notin> set gs \<Longrightarrow> join sep (map (join sep) gs) = join sep (concat gs)"
proof (induction gs)
  case Nil
  show ?case by simp
next
  case (Cons g gs)
  then have g: "g \<noteq> []" and IH: "join sep (map (join sep) gs) = join sep (concat gs)"
    by auto
  show ?case
  proof (cases "gs = []")
    case True
    then show ?thesis by simp
  next
    case False
    with Cons.prems have "concat gs \<noteq> []"
      by (cases gs) auto
    with g IH False show ?thesis
      by (simp add: join_Cons join_append)
  qed
qed

lemma words_from_space:
  "words_from cur (a @ CHR '' '' # b) = words_from cur a @ words_from [] b"
  by (induction a arbitrary: cur) (simp_all add: is_space_def)

lemma whitespace_words_join:
  "whitespace_words (join '' '' ws) = concat (map whitespace_words ws)"
proof (induction ws)
  case Nil
  show ?case by (simp add: whitespace_words_def)
next
  case (Cons w ws)
  show ?case
  proof (cases "ws = []")
    case True
    then show ?thesis by simp
  next
    case False
    with Cons show ?thesis
      by (simp add: join_Cons whitespace_words_def words_from_space)
  qed
qed

section \<open>The chunker keeps the words\<close>

text \<open>
  C2.  For every text, the chunks of \<^verbatim>\<open>chunkText(text, 400)\<close> joined by single spaces
  are the text itself, so splitting the joined chunks on white space gives the words of
  the text.  No chunk boundary falls inside a word and no word is lost or repeated: the
  words of the chunks, chunk after chunk, are the words of the text, both for the words
  of the specification (runs of characters that are not white space) and for the pieces
  that the source obtains by \<^verbatim>\<open>split(" ")\<close>.
\<close>

theorem chunkText_preserves_words:
  "join '' '' (chunkText text 400) = text \<and>
   whitespace_words (join '' '' (chunkText text 400)) = whitespace_words text \<and>
   concat (map whitespace_words (chunkText text 400)) = whitespace_words text \<and>
   concat (map split_space (chunkText text 400)) = split_space text"
proof -
  obtain groups where g: "concat groups = split_space text" "[] \<notin> set groups"
      "chunkText text 400 = map (join '' '') groups"
    using chunkText_groups by blast
  have j: "join '' '' (chunkText text 400) = text"
    using g by (simp add: join_map_join join_split_space)
  have w: "concat (map whitespace_words (chunkText text 400)) = whitespace_words text"
    using whitespace_words_join [of "chunkText text 400"] j by simp
  have "split_space (join '' '' grp) = grp" if m: "grp \<in> set groups" for grp
  proof -
    from m have "set grp \<subseteq> set (split_space text)"
      using g(1) by (metis UN_I set_concat subsetI)
    then have "\<And>x. x \<in> set grp \<Longrightarrow> CHR '' '' \<notin> set x"
      using split_space_no_space by blast
    moreover from m g(2) have "grp \<noteq> []"
      by auto
    ultimately show ?thesis
      by (rule split_space_join [rotated])
  qed
  then have "map split_space (map (join '' '') groups) = groups"
    by (induction groups) simp_all
  then have s: "concat (map split_space (chunkText text 400)) = split_space text"
    using g by simp
  from j w s show ?thesis
    by simp
qed

section \<open>Cosine similarity\<close>

lemma foldl_squares: "foldl (\<lambda>acc a. acc + a * a) s v = s + (\<Sum>x\<leftarrow>v. x * x)"
  by (induction v arbitrary: s) (simp_all add: algebra_simps)

lemma sqrt_sum_squares: "sqrt (sum_squares v) = magnitude v"
  by (simp add: sum_squares_def magnitude_def foldl_squares)

lemma dot_reduce_in_range:
  "i + length as \<le> length vecB \<Longrightarrow>
   dot_reduce vecB (Num s) i as = Num (s + (\<Sum>k<length as. as ! k * vecB ! (i + k)))"
proof (induction as arbitrary: s i)
  case Nil
  show ?case by simp
next
  case (Cons a as)
  from Cons.prems have "i < length vecB" and "Suc i + length as \<le> length vecB"
    by simp_all
  have "(\<Sum>k<Suc (length as). (a # as) ! k * vecB ! (i + k)) =
          a * vecB ! i + (\<Sum>k<length as. as ! k * vecB ! (Suc i + k))"
    by (simp add: sum.lessThan_Suc_shift del: sum.lessThan_Suc)
  with Cons.IH [of "Suc i" "s + a * vecB ! i"] \<open>i < length vecB\<close>
    \<open>Suc i + length as \<le> length vecB\<close>
  show ?case
    by (simp add: at_index_def del: sum.lessThan_Suc)
qed

lemma dot_reduce_eq:
  "length vecA \<le> length vecB \<Longrightarrow> dot_reduce vecB (Num 0) 0 vecA = Num (dot_product vecA vecB)"
  using dot_reduce_in_range [of 0 vecA vecB 0] by (simp add: dot_product_def)

lemma cosineSimilarity_eq:
  "length vecA \<le> length vecB \<Longrightarrow>
   cosineSimilarity vecA vecB =
     Num (if magnitude vecA \<noteq> 0 \<and> magnitude vecB \<noteq> 0
          then dot_product vecA vecB / (magnitude vecA * magnitude vecB) else 0)"
  by (simp add: cosineSimilarity_def Let_def sqrt_sum_squares dot_reduce_eq)

lemma cosineSimilarity_zero_magnitude:
  "magnitude vecA = 0 \<or> magnitude vecB = 0 \<Longrightarrow> cosineSimilarity vecA vecB = Num 0"
  by (auto simp: cosineSimilarity_def Let_def sqrt_sum_squares)

lemma magnitude_zeros: "magnitude (replicate n 0) = 0"
  by (induction n) (simp_all add: magnitude_def)

lemma magnitude_zero_iff: "magnitude u = 0 \<longleftrightarrow> (\<forall>x\<in>set u. x = 0)"
proof -
  have nn: "\<And>v::real list. 0 \<le> (\<Sum>x\<leftarrow>v. x * x)"
    by (rule sum_list_nonneg) auto
  have "(\<Sum>x\<leftarrow>u. x * x) = 0 \<longleftrightarrow> (\<forall>x\<in>set u. x = 0)"
  proof (induction u)
    case Nil show ?case by simp
  next
    case (Cons a u)
    have "a * a + (\<Sum>x\<leftarrow>u. x * x) = 0 \<longleftrightarrow> a * a = 0 \<and> (\<Sum>x\<leftarrow>u. x * x) = 0"
      using nn [of u] by (intro add_nonneg_eq_0_iff) auto
    with Cons show ?case by simp
  qed
  then show ?thesis by (simp add: magnitude_def)
qed

lemma cosineSimilarity_cosine:
  "length vecA \<le> length vecB \<Longrightarrow> cosineSimilarity vecA vecB = Num (cosine vecA vecB)"
  by (simp add: cosineSimilarity_eq cosine_def)

text \<open>
  C6.  For vectors of equal length, \<^verbatim>\<open>cosineSimilarity\<close> is the number
  \<open>dot(u, v) / (|u| * |v|)\<close> when both magnitudes are non-zero and 0 otherwise.  For
  vectors of any lengths it is the number 0, not \<^verbatim>\<open>NaN\<close>, when one of the magnitudes is 0;
  so the similarity of any vector with an all-zero vector is 0.
\<close>

theorem cosineSimilarity_spec:
  "(length u = length v \<longrightarrow>
      cosineSimilarity u v =
        Num (if magnitude u \<noteq> 0 \<and> magnitude v \<noteq> 0
             then dot_product u v / (magnitude u * magnitude v) else 0)) \<and>
   (magnitude u = 0 \<or> magnitude v = 0 \<longrightarrow> cosineSimilarity u v = Num 0) \<and>
   cosineSimilarity u (replicate n 0) = Num 0 \<and>
   cosineSimilarity (replicate n 0) v = Num 0"
  using cosineSimilarity_eq [of u v] cosineSimilarity_zero_magnitude [of u v]
    cosineSimilarity_zero_magnitude [of u "replicate n 0"]
    cosineSimilarity_zero_magnitude [of "replicate n 0" v]
  by (simp add: magnitude_zeros)

theorem cosineSimilarity_spec_witness:
  "length [2::real, 0] = length [2::real, 0] \<and> magnitude [2, 0] \<noteq> 0 \<and>
   cosineSimilarity [2, 0] [2, 0] = Num 1 \<and>
   magnitude [0, 0] = 0 \<and> cosineSimilarity [1, 2] [0, 0] = Num 0"
  using cosineSimilarity_spec [of "[2, 0]" "[2, 0]" 2]
    cosineSimilarity_spec [of "[1, 2]" "[0, 0]" 2]
  by (simp add: magnitude_def dot_product_def lessThan_Suc eval_nat_numeral)

section \<open>The hybrid ranker\<close>

lemma pick_length: "length acc \<le> 3 \<Longrightarrow> length (pick p acc es) \<le> 3"
  by (induction es arbitrary: acc) auto

lemma pick_excludes: "p \<noteq> [] \<Longrightarrow> p \<notin> set acc \<Longrightarrow> p \<notin> set (pick p acc es)"
  by (induction es arbitrary: acc) auto

lemma map_of_put_property: "map_of (put_property c k v) = (map_of c)(k \<mapsto> v)"
  by (induction c) auto

lemma keys_put_property:
  "set (map fst (put_property c k v)) = insert k (set (map fst c))"
proof (induction c)
  case Nil
  show ?case by simp
next
  case (Cons a c)
  obtain k' v' where a: "a = (k', v')" by (cases a)
  show ?case
  proof (cases "k' = k")
    case True
    with a show ?thesis by simp
  next
    case False
    with a Cons show ?thesis by (simp add: insert_commute)
  qed
qed

lemma distinct_put_property:
  "distinct (map fst c) \<Longrightarrow> distinct (map fst (put_property c k v))"
proof (induction c)
  case Nil
  show ?case by simp
next
  case (Cons a c)
  then show ?case
    using keys_put_property [of c k v] by (cases a) auto
qed

lemma map_of_assign:
  "map_of (assign c k v) = (if k = ''__proto__'' then map_of c else (map_of c)(k \<mapsto> v))"
  by (simp add: assign_def map_of_put_property)

lemma keys_assign:
  "set (map fst (assign c k v)) =
     (if k = ''__proto__'' then set (map fst c) else insert k (set (map fst c)))"
  by (simp add: assign_def keys_put_property del: set_map)

lemma distinct_assign: "distinct (map fst c) \<Longrightarrow> distinct (map fst (assign c k v))"
  by (simp add: assign_def distinct_put_property)

lemma distinct_foldl_assign:
  "distinct (map fst c) \<Longrightarrow>
   distinct (map fst (foldl (\<lambda>combined (text, score). assign combined text (f combined text score)) c xs))"
proof (induction xs arbitrary: c)
  case Nil
  then show ?case by simp
next
  case (Cons x xs)
  obtain t s where x: "x = (t, s)" by (cases x)
  from Cons.prems have "distinct (map fst (assign c t (f c t s)))"
    by (rule distinct_assign)
  from Cons.IH [OF this] x show ?case by simp
qed

text \<open>No assignment makes \<^verbatim>\<open>__proto__\<close> an own property.\<close>

lemma proto_foldl_assign:
  "''__proto__'' \<notin> set (map fst c) \<Longrightarrow>
   ''__proto__'' \<notin>
     set (map fst (foldl (\<lambda>combined (text, score). assign combined text (f combined text score)) c xs))"
proof (induction xs arbitrary: c)
  case Nil
  then show ?case by simp
next
  case (Cons x xs)
  obtain t s where x: "x = (t, s)" by (cases x)
  from Cons.prems have "''__proto__'' \<notin> set (map fst (assign c t (f c t s)))"
    by (simp add: keys_assign del: set_map)
  from Cons.IH [OF this] x show ?case by simp
qed

lemma mergeQuestion_lookup:
  "t \<noteq> ''__proto__'' \<Longrightarrow> (\<And>s'. (t, s') \<in> set xs \<Longrightarrow> s' = s) \<Longrightarrow>
   map_of (foldl (\<lambda>combined (text, score). assign combined text score) c xs) t =
     (if t \<in> fst ` set xs then Some s else map_of c t)"
proof (induction xs arbitrary: c)
  case Nil
  show ?case by simp
next
  case (Cons x xs)
  obtain t' s' where x: "x = (t', s')" by (cases x)
  have rest: "\<And>s'. (t, s') \<in> set xs \<Longrightarrow> s' = s"
    by (rule Cons.prems(2)) simp
  have IH: "map_of (foldl (\<lambda>combined (text, score). assign combined text score)
                     (assign c t' s') xs) t =
            (if t \<in> fst ` set xs then Some s else map_of (assign c t' s') t)"
    by (rule Cons.IH [OF Cons.prems(1) rest])
  show ?case
  proof (cases "t' = t")
    case True
    with Cons.prems(2) [of s'] x have "s' = s" by simp
    with IH x True Cons.prems(1) show ?thesis by (simp add: map_of_assign)
  next
    case False
    with IH x show ?thesis by (auto simp: map_of_assign)
  qed
qed

lemma js_or_zero_Num: "js_to_number (js_or_zero (Number (Num q))) = Num q"
  by simp

lemma mergeSelection_lookup:
  "t \<noteq> ''__proto__'' \<Longrightarrow> (\<And>s'. (t, s') \<in> set xs \<Longrightarrow> s' = Num e) \<Longrightarrow>
   map_of c t = Some (Num q) \<Longrightarrow>
   map_of (mergeSelection c xs) t =
     Some (Num (if t \<in> fst ` set xs then max q (e * 1.1) else q))"
  unfolding mergeSelection_def
proof (induction xs arbitrary: c q)
  case Nil
  then show ?case by simp
next
  case (Cons x xs)
  obtain t' s' where x: "x = (t', s')" by (cases x)
  let ?v = "js_max (js_to_number (js_or_zero (get_property c t'))) (js_mul s' (Num 1.1))"
  let ?c' = "assign c t' ?v"
  have rest: "\<And>s'. (t, s') \<in> set xs \<Longrightarrow> s' = Num e"
    by (rule Cons.prems(2)) simp
  show ?case
  proof (cases "t' = t")
    case True
    have s': "s' = Num e"
      by (rule Cons.prems(2)) (simp add: x True)
    have g: "get_property c t' = Number (Num q)"
      using Cons.prems(3) by (simp add: get_property_def True)
    have v: "?v = Num (max q (e * 1.1))"
      unfolding g s' js_or_zero_Num by simp
    have c': "map_of ?c' t = Some (Num (max q (e * 1.1)))"
      unfolding v using Cons.prems(1) by (simp add: map_of_assign True)
    have "map_of (foldl (\<lambda>combined (text, score).
              assign combined text
                (js_max (js_to_number (js_or_zero (get_property combined text)))
                   (js_mul score (Num 1.1)))) ?c' xs) t =
          Some (Num (if t \<in> fst ` set xs then max (max q (e * 1.1)) (e * 1.1) else max q (e * 1.1)))"
      by (rule Cons.IH [OF Cons.prems(1) rest c'])
    then show ?thesis
      by (simp add: x True)
  next
    case False
    have c': "map_of ?c' t = Some (Num q)"
      using Cons.prems(3) False by (simp add: map_of_assign)
    have "map_of (foldl (\<lambda>combined (text, score).
              assign combined text
                (js_max (js_to_number (js_or_zero (get_property combined text)))
                   (js_mul score (Num 1.1)))) ?c' xs) t =
          Some (Num (if t \<in> fst ` set xs then max q (e * 1.1) else q))"
      by (rule Cons.IH [OF Cons.prems(1) rest c'])
    then show ?thesis
      using False by (simp add: x)
  qed
qed

lemma set_insert_sorted: "set (insert_sorted cmp x ys) = insert x (set ys)"
  by (induction ys) auto

lemma set_js_sort: "set (js_sort cmp xs) = set xs"
  by (induction xs) (simp_all add: js_sort_def set_insert_sorted)

lemma distinct_keys_insert_sorted:
  "distinct (map fst (insert_sorted cmp x ys)) \<longleftrightarrow> fst x \<notin> fst ` set ys \<and> distinct (map fst ys)"
  by (induction ys) (auto simp: set_insert_sorted)

lemma distinct_keys_js_sort: "distinct (map fst (js_sort cmp xs)) \<longleftrightarrow> distinct (map fst xs)"
  by (induction xs) (simp_all add: js_sort_def distinct_keys_insert_sorted set_js_sort [unfolded js_sort_def])

lemma map_of_js_sort:
  "distinct (map fst xs) \<Longrightarrow> map_of (js_sort cmp xs) = map_of xs"
  by (rule map_of_inject_set [THEN iffD2]) (simp_all add: distinct_keys_js_sort set_js_sort)

lemma set_object_entries: "set (object_entries c) = set c"
  by (auto simp: object_entries_def)

lemma distinct_keys_object_entries:
  assumes "distinct (map fst c)"
  shows "distinct (map fst (object_entries c))"
proof -
  from assms have d: "distinct c" and inj: "inj_on fst (set c)"
    by (simp_all add: distinct_map)
  have "distinct (object_entries c)"
    using d by (auto simp: object_entries_def)
  moreover have "inj_on fst (set (object_entries c))"
    using inj by (simp add: set_object_entries)
  ultimately show ?thesis
    by (simp add: distinct_map)
qed

lemma map_of_object_entries:
  "distinct (map fst c) \<Longrightarrow> map_of (object_entries c) = map_of c"
  by (rule map_of_inject_set [THEN iffD2])
    (simp_all add: distinct_keys_object_entries set_object_entries)

lemma scoreAgainst_consistent:
  assumes e: "e \<in> set vectorDB"
    and consistent: "\<And>a. a \<in> set vectorDB \<Longrightarrow> entry_text a = entry_text e \<Longrightarrow>
                       embedding a = embedding e"
    and dim: "length vec \<le> length (embedding e)"
  shows "entry_text e \<in> fst ` set (scoreAgainst vec vectorDB)"
    and "(entry_text e, s') \<in> set (scoreAgainst vec vectorDB) \<Longrightarrow>
           s' = Num (cosine vec (embedding e))"
proof -
  from e show "entry_text e \<in> fst ` set (scoreAgainst vec vectorDB)"
    by (force simp: scoreAgainst_def)
next
  assume "(entry_text e, s') \<in> set (scoreAgainst vec vectorDB)"
  then obtain a where a: "a \<in> set vectorDB" "entry_text a = entry_text e"
      "s' = cosineSimilarity vec (embedding a)"
    by (auto simp: scoreAgainst_def)
  with consistent [of a] dim show "s' = Num (cosine vec (embedding e))"
    by (simp add: cosineSimilarity_cosine)
qed

lemma distinct_mergeQuestion: "distinct (map fst (mergeQuestion xs))"
  unfolding mergeQuestion_def
  using distinct_foldl_assign [of "[]" "\<lambda>c t s. s" xs] by simp

lemma distinct_mergeSelection:
  "distinct (map fst c) \<Longrightarrow> distinct (map fst (mergeSelection c xs))"
  unfolding mergeSelection_def
  using distinct_foldl_assign
    [of c "\<lambda>c t s. js_max (js_to_number (js_or_zero (get_property c t))) (js_mul s (Num 1.1))"
        xs]
  by simp

lemma proto_mergeQuestion: "''__proto__'' \<notin> set (map fst (mergeQuestion xs))"
  unfolding mergeQuestion_def
  using proto_foldl_assign [of "[]" "\<lambda>c t s. s" xs] by simp

lemma proto_mergeSelection:
  "''__proto__'' \<notin> set (map fst c) \<Longrightarrow> ''__proto__'' \<notin> set (map fst (mergeSelection c xs))"
  unfolding mergeSelection_def
  using proto_foldl_assign
    [of c "\<lambda>c t s. js_max (js_to_number (js_or_zero (get_property c t))) (js_mul s (Num 1.1))"
        xs]
  by simp

text \<open>
  The index built by \<^verbatim>\<open>loadPdf\<close> holds one embedding per chunk text, and its embeddings
  have one dimension when the vectors of the embedder have.
\<close>

lemma loadPdf_vectorDB_functional:
  "a \<in> set (loadPdf_vectorDB embedder pages) \<Longrightarrow> embedding a = embedder (entry_text a)"
  by (auto simp: loadPdf_vectorDB_def Let_def)

lemma loadPdf_vectorDB_consistent:
  "\<forall>a\<in>set (loadPdf_vectorDB embedder pages). \<forall>b\<in>set (loadPdf_vectorDB embedder pages).
      entry_text a = entry_text b \<longrightarrow> embedding a = embedding b"
  by (simp add: loadPdf_vectorDB_functional)

lemmas ranker_defs = handleAsk_supplements_def combinedArray_def scoreAgainst_def
  mergeQuestion_def mergeSelection_def js_sort_def cosineSimilarity_def sum_squares_def
  at_index_def trim_def is_space_def Let_def assign_def get_property_def prototype_keys_def
  object_entries_def is_array_index_def is_digit_def index_value_def

text \<open>
  C1.  Whatever the index, the question and the embedder are, the supplements that
  \<^verbatim>\<open>handleAsk\<close> collects are at most 3 chunk texts, and when the primary excerpt (the
  trimmed extracted text) is not empty, none of them is equal to it, whatever its score.
\<close>

theorem supplements_bounded_exclude_excerpt:
  "handleAsk_supplements question extractedText vectorDB embedder = Some supplements \<Longrightarrow>
   length supplements \<le> 3 \<and>
   (trim extractedText \<noteq> [] \<longrightarrow> trim extractedText \<notin> set supplements)"
  by (auto simp: handleAsk_supplements_def Let_def pick_length pick_excludes
        split: if_splits option.splits)

text \<open>
  In the witness the chunk \<open>B\<close> is the excerpt and has the highest score, 1.1; the
  supplements are the three next chunks.
\<close>

theorem supplements_bounded_exclude_excerpt_witness:
  "handleAsk_supplements ''what?'' '' B ''
     [\<lparr>entry_text = ''A'', embedding = [1, 0]\<rparr>,
      \<lparr>entry_text = ''B'', embedding = [0, 1]\<rparr>,
      \<lparr>entry_text = ''C'', embedding = [0, -1]\<rparr>,
      \<lparr>entry_text = ''D'', embedding = [2, 0]\<rparr>,
      \<lparr>entry_text = ''E'', embedding = [0, 2]\<rparr>] (Some (\<lambda>t. [0, 1]))
     = Some [''E'', ''A'', ''D''] \<and>
   combinedArray (\<lambda>t. [0, 1]) ''what?'' ''B''
     [\<lparr>entry_text = ''A'', embedding = [1, 0]\<rparr>,
      \<lparr>entry_text = ''B'', embedding = [0, 1]\<rparr>,
      \<lparr>entry_text = ''C'', embedding = [0, -1]\<rparr>,
      \<lparr>entry_text = ''D'', embedding = [2, 0]\<rparr>,
      \<lparr>entry_text = ''E'', embedding = [0, 2]\<rparr>]
     = [(''B'', Num 1.1), (''E'', Num 1.1), (''A'', Num 0), (''D'', Num 0), (''C'', Num (-1))] \<and>
   length [''E'', ''A'', ''D''] \<le> 3 \<and> trim '' B '' = ''B'' \<and>
   ''B'' \<notin> set [''E'', ''A'', ''D'']"
proof -
  let ?db = "[\<lparr>entry_text = ''A'', embedding = [1, 0]\<rparr>,
              \<lparr>entry_text = ''B'', embedding = [0, 1]\<rparr>,
              \<lparr>entry_text = ''C'', embedding = [0, -1]\<rparr>,
              \<lparr>entry_text = ''D'', embedding = [2, 0]\<rparr>,
              \<lparr>entry_text = ''E'', embedding = [0, 2]\<rparr>]"
  let ?scored = "[(''A'', Num 0), (''B'', Num 1), (''C'', Num (-1)), (''D'', Num 0),
                  (''E'', Num 1)]"
  let ?merged = "[(''A'', Num 0), (''B'', Num 1.1), (''C'', Num (-1)), (''D'', Num 0),
                  (''E'', Num 1.1)]"
  have scored: "scoreAgainst [0, 1] ?db = ?scored"
    by (simp add: scoreAgainst_def cosineSimilarity_def sum_squares_def at_index_def)
  have question: "mergeQuestion ?scored = ?scored"
    by (simp add: mergeQuestion_def assign_def)
  have selection: "mergeSelection ?scored ?scored = ?merged"
    by (simp add: mergeSelection_def assign_def get_property_def)
  have entries: "object_entries ?merged = ?merged"
    by (simp add: object_entries_def is_array_index_def is_digit_def)
  have sorted: "js_sort (\<lambda>a b. js_sub (snd b) (snd a)) ?merged =
      [(''B'', Num 1.1), (''E'', Num 1.1), (''A'', Num 0), (''D'', Num 0), (''C'', Num (-1))]"
    by (simp add: js_sort_def)
  have ca: "combinedArray (\<lambda>t. [0, 1]) ''what?'' ''B'' ?db =
      [(''B'', Num 1.1), (''E'', Num 1.1), (''A'', Num 0), (''D'', Num 0), (''C'', Num (-1))]"
    by (simp add: combinedArray_def Let_def scored question selection entries sorted)
  have tr: "trim '' B '' = ''B''"
    by (simp add: trim_def is_space_def)
  have ev: "handleAsk_supplements ''what?'' '' B '' ?db (Some (\<lambda>t. [0, 1])) =
      Some [''E'', ''A'', ''D'']"
    by (simp add: handleAsk_supplements_def tr ca)
  from supplements_bounded_exclude_excerpt [OF ev] ev ca tr show ?thesis
    by simp
qed

text \<open>
  The scores of \<^verbatim>\<open>combinedArray\<close>.  Let the index hold the same embedding for equal
  chunk texts, and let every embedding in it have the dimension of the question's vector
  (and of the excerpt's vector when there is an excerpt).  Then the chunk texts of
  \<^verbatim>\<open>combinedArray\<close> are distinct, \<^verbatim>\<open>__proto__\<close> is not among them, and the score of every
  other chunk text of the index is \<open>max(questionScore, 1.1 * excerptScore)\<close> when the
  primary excerpt is not empty and \<open>questionScore\<close> when it is.
\<close>

lemma sorted_entries_keys:
  assumes "distinct (map fst c)" and "''__proto__'' \<notin> set (map fst c)"
  shows "distinct (map fst (js_sort cmp (object_entries c))) \<and>
         map_of (js_sort cmp (object_entries c)) ''__proto__'' = None"
proof -
  from assms(1) have d: "distinct (map fst (object_entries c))"
    by (rule distinct_keys_object_entries)
  then have "map_of (js_sort cmp (object_entries c)) = map_of c"
    using assms(1) by (simp add: map_of_js_sort map_of_object_entries)
  moreover from assms(2) have "map_of c ''__proto__'' = None"
    by (simp add: map_of_eq_None_iff)
  ultimately show ?thesis
    using d by (simp add: distinct_keys_js_sort)
qed

lemma combinedArray_keys:
  "distinct (map fst (combinedArray embedder question primaryExcerpt vectorDB)) \<and>
   map_of (combinedArray embedder question primaryExcerpt vectorDB) ''__proto__'' = None"
proof (cases "primaryExcerpt = []")
  case True
  then have "combinedArray embedder question primaryExcerpt vectorDB =
      js_sort (\<lambda>a b. js_sub (snd b) (snd a))
        (object_entries (mergeQuestion (scoreAgainst (embedder question) vectorDB)))"
    by (simp add: combinedArray_def Let_def)
  then show ?thesis
    using sorted_entries_keys [OF distinct_mergeQuestion proto_mergeQuestion]
    by (simp only:)
next
  case False
  then have "combinedArray embedder question primaryExcerpt vectorDB =
      js_sort (\<lambda>a b. js_sub (snd b) (snd a))
        (object_entries
          (mergeSelection (mergeQuestion (scoreAgainst (embedder question) vectorDB))
             (scoreAgainst (embedder primaryExcerpt) vectorDB)))"
    by (simp add: combinedArray_def Let_def)
  then show ?thesis
    using sorted_entries_keys
      [OF distinct_mergeSelection [OF distinct_mergeQuestion]
          proto_mergeSelection [OF proto_mergeQuestion]]
    by (simp only:)
qed

lemma combinedArray_score:
  assumes e: "e \<in> set vectorDB"
    and proto: "entry_text e \<noteq> ''__proto__''"
    and consistent: "\<forall>a\<in>set vectorDB. \<forall>b\<in>set vectorDB.
                       entry_text a = entry_text b \<longrightarrow> embedding a = embedding b"
    and dimQ: "\<forall>a\<in>set vectorDB. length (embedding a) = length (embedder question)"
    and dimS: "primaryExcerpt \<noteq> [] \<longrightarrow>
                 (\<forall>a\<in>set vectorDB. length (embedding a) = length (embedder primaryExcerpt))"
  shows "\<exists>questionScore excerptScore.
           cosineSimilarity (embedder question) (embedding e) = Num questionScore \<and>
           (primaryExcerpt \<noteq> [] \<longrightarrow>
              cosineSimilarity (embedder primaryExcerpt) (embedding e) = Num excerptScore) \<and>
           map_of (combinedArray embedder question primaryExcerpt vectorDB) (entry_text e) =
             Some (Num (if primaryExcerpt \<noteq> [] then max questionScore (1.1 * excerptScore)
                        else questionScore))"
proof -
  let ?t = "entry_text e"
  let ?q = "cosine (embedder question) (embedding e)"
  let ?x = "cosine (embedder primaryExcerpt) (embedding e)"
  let ?sq = "scoreAgainst (embedder question) vectorDB"
  let ?ss = "scoreAgainst (embedder primaryExcerpt) vectorDB"
  have cons: "\<And>a. a \<in> set vectorDB \<Longrightarrow> entry_text a = ?t \<Longrightarrow> embedding a = embedding e"
    using consistent e by blast
  have lq: "length (embedder question) \<le> length (embedding e)"
    using dimQ e by simp
  have q_in: "?t \<in> fst ` set ?sq"
    and q_val: "\<And>s'. (?t, s') \<in> set ?sq \<Longrightarrow> s' = Num ?q"
    using scoreAgainst_consistent [OF e cons lq] by blast+
  have mq: "map_of (mergeQuestion ?sq) ?t = Some (Num ?q)"
    unfolding mergeQuestion_def
    using mergeQuestion_lookup [of ?t ?sq "Num ?q" "[]", OF proto q_val] q_in by simp
  have cq: "cosineSimilarity (embedder question) (embedding e) = Num ?q"
    using lq by (rule cosineSimilarity_cosine)
  show ?thesis
  proof (cases "primaryExcerpt = []")
    case True
    have "map_of (combinedArray embedder question primaryExcerpt vectorDB) ?t = Some (Num ?q)"
      using True mq
      by (simp add: combinedArray_def Let_def map_of_js_sort map_of_object_entries
            distinct_keys_object_entries distinct_mergeQuestion)
    then show ?thesis
      using True cq by (intro exI [of _ ?q] exI [of _ 0]) simp
  next
    case False
    have ls: "length (embedder primaryExcerpt) \<le> length (embedding e)"
      using dimS e False by simp
    have s_in: "?t \<in> fst ` set ?ss"
      and s_val: "\<And>s'. (?t, s') \<in> set ?ss \<Longrightarrow> s' = Num ?x"
      using scoreAgainst_consistent [OF e cons ls] by blast+
    have ms: "map_of (mergeSelection (mergeQuestion ?sq) ?ss) ?t = Some (Num (max ?q (?x * 1.1)))"
      using mergeSelection_lookup [of ?t ?ss ?x "mergeQuestion ?sq" ?q, OF proto s_val mq] s_in
      by simp
    have d: "distinct (map fst (mergeSelection (mergeQuestion ?sq) ?ss))"
      by (rule distinct_mergeSelection) (rule distinct_mergeQuestion)
    have "map_of (combinedArray embedder question primaryExcerpt vectorDB) ?t =
            Some (Num (max ?q (1.1 * ?x)))"
      using False ms d
      by (simp add: combinedArray_def Let_def map_of_js_sort map_of_object_entries
            distinct_keys_object_entries mult.commute)
    moreover have "cosineSimilarity (embedder primaryExcerpt) (embedding e) = Num ?x"
      using ls by (rule cosineSimilarity_cosine)
    ultimately show ?thesis
      using False cq by (intro exI [of _ ?q] exI [of _ ?x]) simp
  qed
qed

text \<open>
  The order of \<^verbatim>\<open>Object.entries\<close> on an example: the keys \<open>10\<close> and \<open>9\<close> are array indices
  and come first, in numeric order; \<open>007\<close> is not one.
\<close>

lemma object_entries_example:
  "object_entries [(''b'', Num 1), (''10'', Num 2), (''007'', Num 3), (''9'', Num 4)] =
     [(''9'', Num 4), (''10'', Num 2), (''b'', Num 1), (''007'', Num 3)]"
  by (simp add: object_entries_def is_array_index_def is_digit_def index_value_def)

text \<open>
  C3.  The ranker does not give every chunk text the score
  \<open>max(questionScore, 1.1 * excerptScore)\<close>: it gives no score to a chunk whose text is
  \<^verbatim>\<open>__proto__\<close>.  For a document whose whole text is \<^verbatim>\<open>__proto__\<close>, \<^verbatim>\<open>loadPdf\<close> builds an
  index of that one chunk; its similarity to the question is the number 1, but both
  assignments to \<^verbatim>\<open>combined\<close> are without effect, \<^verbatim>\<open>combinedArray\<close> is empty with or without
  an excerpt, and there are no supplements.  In an index of two chunks only the other
  chunk has a score.
\<close>

theorem handleAsk_proto_chunk_unscored:
  "loadPdf_vectorDB (\<lambda>t. [1, 0])
     [[\<lparr>item_str = ''__proto__'',
        item_transform = \<lparr>m0 = 1, m1 = 0, m2 = 0, m3 = 1, m4 = 50, m5 = 700\<rparr>,
        item_width = 60, item_height = 10\<rparr>]]
     = [\<lparr>entry_text = ''__proto__'', embedding = [1, 0]\<rparr>] \<and>
   cosineSimilarity [1, 0] [1, 0] = Num 1 \<and>
   combinedArray (\<lambda>t. [1, 0]) ''what?'' ''''
     [\<lparr>entry_text = ''__proto__'', embedding = [1, 0]\<rparr>] = [] \<and>
   combinedArray (\<lambda>t. [1, 0]) ''what?'' ''excerpt''
     [\<lparr>entry_text = ''__proto__'', embedding = [1, 0]\<rparr>] = [] \<and>
   handleAsk_supplements ''what?'' ''''
     [\<lparr>entry_text = ''__proto__'', embedding = [1, 0]\<rparr>] (Some (\<lambda>t. [1, 0])) = Some [] \<and>
   combinedArray (\<lambda>t. [1, 0]) ''what?'' ''excerpt''
     [\<lparr>entry_text = ''body'', embedding = [2, 0]\<rparr>,
      \<lparr>entry_text = ''__proto__'', embedding = [1, 0]\<rparr>] = [(''body'', Num 1.1)]"
  by (simp add: ranker_defs loadPdf_vectorDB_def chunkText_def)

section \<open>Selection extraction\<close>

lemma js_sort_key: "js_sort (\<lambda>a b. Num (f a - f b)) xs = sort_key f xs"
proof -
  have "insert_sorted (\<lambda>a b. Num (f a - f b)) x ys = insort_key f x ys" for x ys
    by (induction ys) simp_all
  then show ?thesis
    by (induction xs) (simp_all add: js_sort_def)
qed

lemma foldl_fontSize: "foldl (\<lambda>acc item. acc + fontSize item) s xs = s + sum_list (map fontSize xs)"
  by (induction xs arbitrary: s) (simp_all add: algebra_simps)

text \<open>
  A box of area 0 has no overlap with the selection, in both viewers: the quotient that
  the source compares with 0.3 is then 0 divided by 0.
\<close>

lemma overlap_zero_area:
  fixes w h :: real
  assumes "w * h = 0"
  shows "max 0 (min (sx + sw) (x + w) - max sx x) * max 0 (min (sy + sh) (y + h) - max sy y) = 0"
  using assms by (auto simp: max_def min_def)

lemma getOverlap_zero_area: "b_width b * b_height b = 0 \<Longrightarrow> getOverlap sel b = 0"
  by (simp add: getOverlap_def Let_def overlap_zero_area)

text \<open>
  In \<^verbatim>\<open>handleMouseUp\<close> the runs of the output are in ascending order of \<^verbatim>\<open>y\<close>, and the
  runs that share a \<^verbatim>\<open>y\<close> are in the order in which they were met.
\<close>

lemma handleMouseUp_vertical_order:
  assumes "handleMouseUp isDragging (Some sel) (Some items) (Some vp) = Some out"
  shows "out = trim (join '' '' (map si_str (filteredItems (sortedSelection sel vp items))))"
    and "sorted (map si_y (filteredItems (sortedSelection sel vp items)))"
    and "filter (\<lambda>run. si_y run = k) (filteredItems (sortedSelection sel vp items)) =
           filter (\<lambda>run. si_y run = k)
             (filter (keepItem (sortedSelection sel vp items)) (collect sel vp items))"
proof -
  let ?kept = "collect sel vp items"
  let ?keep = "keepItem (sortedSelection sel vp items)"
  from assms show "out = trim (join '' '' (map si_str (filteredItems (sortedSelection sel vp items))))"
    by (simp add: handleMouseUp_def split: if_splits)
  show "sorted (map si_y (filteredItems (sortedSelection sel vp items)))"
    by (simp add: filteredItems_def sortedSelection_def js_sort_key sorted_filter)
  have "filter (\<lambda>run. si_y run = k) (filteredItems (sortedSelection sel vp items)) =
          filter ?keep (filter (\<lambda>run. si_y run = k) (sort_key si_y ?kept))"
    by (simp add: filteredItems_def sortedSelection_def js_sort_key conj_commute)
  also have "\<dots> = filter ?keep (filter (\<lambda>run. si_y run = k) ?kept)"
    by (simp only: sort_key_stable)
  finally show "filter (\<lambda>run. si_y run = k) (filteredItems (sortedSelection sel vp items)) =
           filter (\<lambda>run. si_y run = k) (filter ?keep ?kept)"
    by (simp add: conj_commute)
qed

lemmas extraction_defs = extractFromSelection_def selected_def run_box_def getOverlap_def
  util_transform_def trim_def is_space_def Let_def handleMouseUp_def filteredItems_def
  keepItem_def avgFontSize_def sortedSelection_def collect_def covered_def js_sort_def
  List.map_filter_def

text \<open>
  C4.  In \<^verbatim>\<open>handleMouseUp\<close> a kept run is a heading candidate exactly when the source's
  test \<^verbatim>\<open>fontSize > avgFontSize * 1.5\<close> holds of it.  When the heading candidates are more
  than half of the kept runs, or there are at most 3 kept runs, every kept run is
  retained; otherwise exactly the heading candidates are dropped.  The text that is set
  is made of the runs retained among the kept runs of the selection.
\<close>

theorem heading_suppression:
  "(heading_candidate kept run \<longleftrightarrow> fontSize run > avgFontSize kept * 1.5) \<and>
   filteredItems kept =
     (if real (length (filter (heading_candidate kept) kept)) / real (length kept) > 0.5 \<or>
         length kept \<le> 3
      then kept else filter (\<lambda>run. \<not> heading_candidate kept run) kept) \<and>
   handleMouseUp True (Some sel) (Some items) (Some vp) =
     Some (trim (join '' '' (map si_str (filteredItems (sortedSelection sel vp items)))))"
proof -
  have hc: "(fontSize run > avgFontSize kept * 1.5) = heading_candidate kept run" for run
    by (simp add: heading_candidate_def avgFontSize_def foldl_fontSize mult.commute)
  let ?many = "real (length (filter (heading_candidate kept) kept)) / real (length kept) > 0.5 \<or>
         length kept \<le> 3"
  have keep: "keepItem kept run = (\<not> heading_candidate kept run \<or> ?many)" for run
    unfolding keepItem_def Let_def hc by (simp add: disj_assoc)
  have f: "filteredItems kept =
     (if ?many then kept else filter (\<lambda>run. \<not> heading_candidate kept run) kept)"
  proof (cases ?many)
    case True
    then have "filter (keepItem kept) kept = kept"
      unfolding keep by simp
    with True show ?thesis
      by (simp only: filteredItems_def if_True)
  next
    case False
    then have "filter (keepItem kept) kept = filter (\<lambda>run. \<not> heading_candidate kept run) kept"
      unfolding keep by simp
    with False show ?thesis
      by (simp only: filteredItems_def if_False)
  qed
  have h: "handleMouseUp True (Some sel) (Some items) (Some vp) =
     Some (trim (join '' '' (map si_str (filteredItems (sortedSelection sel vp items)))))"
    by (simp add: handleMouseUp_def)
  from hc [of run] f h show ?thesis
    by simp
qed

text \<open>
  The witness: of four kept runs of sizes 10, 20, 10, 10 the run of size 20 is a heading
  candidate and is dropped; of three kept runs of sizes 10, 20, 10 none is dropped; of
  five kept runs of which three are heading candidates none is dropped.
\<close>

theorem heading_suppression_witness:
  "heading_candidate
     [\<lparr>si_str = ''a'', fontSize = 10, si_y = 1\<rparr>, \<lparr>si_str = ''T'', fontSize = 20, si_y = 2\<rparr>,
      \<lparr>si_str = ''b'', fontSize = 10, si_y = 3\<rparr>, \<lparr>si_str = ''c'', fontSize = 10, si_y = 4\<rparr>]
     \<lparr>si_str = ''T'', fontSize = 20, si_y = 2\<rparr> \<and>
   filteredItems
     [\<lparr>si_str = ''a'', fontSize = 10, si_y = 1\<rparr>, \<lparr>si_str = ''T'', fontSize = 20, si_y = 2\<rparr>,
      \<lparr>si_str = ''b'', fontSize = 10, si_y = 3\<rparr>, \<lparr>si_str = ''c'', fontSize = 10, si_y = 4\<rparr>]
     = [\<lparr>si_str = ''a'', fontSize = 10, si_y = 1\<rparr>, \<lparr>si_str = ''b'', fontSize = 10, si_y = 3\<rparr>,
        \<lparr>si_str = ''c'', fontSize = 10, si_y = 4\<rparr>] \<and>
   filteredItems
     [\<lparr>si_str = ''a'', fontSize = 10, si_y = 1\<rparr>, \<lparr>si_str = ''T'', fontSize = 20, si_y = 2\<rparr>,
      \<lparr>si_str = ''b'', fontSize = 10, si_y = 3\<rparr>]
     = [\<lparr>si_str = ''a'', fontSize = 10, si_y = 1\<rparr>, \<lparr>si_str = ''T'', fontSize = 20, si_y = 2\<rparr>,
        \<lparr>si_str = ''b'', fontSize = 10, si_y = 3\<rparr>] \<and>
   filteredItems
     [\<lparr>si_str = ''T'', fontSize = 16, si_y = 1\<rparr>, \<lparr>si_str = ''U'', fontSize = 16, si_y = 2\<rparr>,
      \<lparr>si_str = ''V'', fontSize = 16, si_y = 3\<rparr>, \<lparr>si_str = ''a'', fontSize = 1, si_y = 4\<rparr>,
      \<lparr>si_str = ''b'', fontSize = 1, si_y = 5\<rparr>]
     = [\<lparr>si_str = ''T'', fontSize = 16, si_y = 1\<rparr>, \<lparr>si_str = ''U'', fontSize = 16, si_y = 2\<rparr>,
        \<lparr>si_str = ''V'', fontSize = 16, si_y = 3\<rparr>, \<lparr>si_str = ''a'', fontSize = 1, si_y = 4\<rparr>,
        \<lparr>si_str = ''b'', fontSize = 1, si_y = 5\<rparr>]"
  using heading_suppression
    [of "[\<lparr>si_str = ''a'', fontSize = 10, si_y = 1\<rparr>, \<lparr>si_str = ''T'', fontSize = 20, si_y = 2\<rparr>,
          \<lparr>si_str = ''b'', fontSize = 10, si_y = 3\<rparr>, \<lparr>si_str = ''c'', fontSize = 10, si_y = 4\<rparr>]",
     THEN conjunct2, THEN conjunct1]
    heading_suppression
    [of "[\<lparr>si_str = ''a'', fontSize = 10, si_y = 1\<rparr>, \<lparr>si_str = ''T'', fontSize = 20, si_y = 2\<rparr>,
          \<lparr>si_str = ''b'', fontSize = 10, si_y = 3\<rparr>]",
     THEN conjunct2, THEN conjunct1]
    heading_suppression
    [of "[\<lparr>si_str = ''T'', fontSize = 16, si_y = 1\<rparr>, \<lparr>si_str = ''U'', fontSize = 16, si_y = 2\<rparr>,
          \<lparr>si_str = ''V'', fontSize = 16, si_y = 3\<rparr>, \<lparr>si_str = ''a'', fontSize = 1, si_y = 4\<rparr>,
          \<lparr>si_str = ''b'', fontSize = 1, si_y = 5\<rparr>]",
     THEN conjunct2, THEN conjunct1]
  by (simp add: heading_candidate_def)

text \<open>
  C5.  \<^verbatim>\<open>extractFromSelection\<close> of the single-file App does not sort.  On a page whose
  first run lies lower than its second one, with a selection that covers both, it sets
  the text \<open>lower upper\<close>, although the box of \<open>lower\<close> has the greater top-down position
  (690 against 90); \<^verbatim>\<open>handleMouseUp\<close> sets \<open>upper lower\<close> on the same page.
\<close>

theorem extractFromSelection_encounter_order:
  "extractFromSelection
     (Some \<lparr>box_left = 0, box_top = 0, box_width = 600, box_height = 800\<rparr>)
     (Some ([\<lparr>item_str = ''lower'',
               item_transform = \<lparr>m0 = 1, m1 = 0, m2 = 0, m3 = 1, m4 = 50, m5 = 100\<rparr>,
               item_width = 40, item_height = 10\<rparr>,
             \<lparr>item_str = ''upper'',
               item_transform = \<lparr>m0 = 1, m1 = 0, m2 = 0, m3 = 1, m4 = 50, m5 = 700\<rparr>,
               item_width = 40, item_height = 10\<rparr>],
            \<lparr>vp_scale = 1, vp_width = 600, vp_height = 800,
             vp_transform = \<lparr>m0 = 1, m1 = 0, m2 = 0, m3 = -1, m4 = 0, m5 = 800\<rparr>\<rparr>))
     = Some ''lower upper'' \<and>
   b_y (run_box \<lparr>vp_scale = 1, vp_width = 600, vp_height = 800,
                 vp_transform = \<lparr>m0 = 1, m1 = 0, m2 = 0, m3 = -1, m4 = 0, m5 = 800\<rparr>\<rparr>
          \<lparr>item_str = ''lower'',
            item_transform = \<lparr>m0 = 1, m1 = 0, m2 = 0, m3 = 1, m4 = 50, m5 = 100\<rparr>,
            item_width = 40, item_height = 10\<rparr>) = 690 \<and>
   b_y (run_box \<lparr>vp_scale = 1, vp_width = 600, vp_height = 800,
                 vp_transform = \<lparr>m0 = 1, m1 = 0, m2 = 0, m3 = -1, m4 = 0, m5 = 800\<rparr>\<rparr>
          \<lparr>item_str = ''upper'',
            item_transform = \<lparr>m0 = 1, m1 = 0, m2 = 0, m3 = 1, m4 = 50, m5 = 700\<rparr>,
            item_width = 40, item_height = 10\<rparr>) = 90 \<and>
   handleMouseUp True
     (Some \<lparr>sel_x = 0, sel_y = 0, sel_width = 600, sel_height = 800\<rparr>)
     (Some [\<lparr>item_str = ''lower'',
              item_transform = \<lparr>m0 = 1, m1 = 0, m2 = 0, m3 = 1, m4 = 50, m5 = 100\<rparr>,
              item_width = 40, item_height = 10\<rparr>,
            \<lparr>item_str = ''upper'',
              item_transform = \<lparr>m0 = 1, m1 = 0, m2 = 0, m3 = 1, m4 = 50, m5 = 700\<rparr>,
              item_width = 40, item_height = 10\<rparr>])
     (Some \<lparr>vp_scale = 1, vp_width = 600, vp_height = 800,
            vp_transform = \<lparr>m0 = 1, m1 = 0, m2 = 0, m3 = -1, m4 = 0, m5 = 800\<rparr>\<rparr>)
     = Some ''upper lower''"
  by (simp add: extraction_defs)

end
